theory Spec2Isabelle
  imports Complex_Main "HOL-Library.Word" "HOL-Library.AList"
begin

section \<open>The page script js/script.js as a state transformer\<close>

text \<open>
  The script is a class \<open>WindowsHistoryApp\<close> whose methods read and mutate the instance,
  the document, the window, \<open>localStorage\<close> and the console. Every method is modelled as a
  function from the state before the call to the state after it; a method that can throw
  returns a sum. The state holds one field per piece of browser state the script touches.
\<close>

subsection \<open>Strings and literals\<close>

text \<open>
  Theme names, storage keys, attribute names and class names are compared against
  ASCII literals only and are modelled as \<open>string\<close>. The value typed into the search field
  is arbitrary user text, on which \<open>trim\<close> depends on code units beyond Latin-1, so it is a
  list of UTF-16 code units.
\<close>

type_synonym jsstring = "16 word list"

text \<open>The literals of the script that are not ASCII (button captions, aria labels) are
  kept apart by a constructor each; an ASCII value is \<open>Str\<close>.\<close>

datatype dom_string =
    Str string
  | CaptionSwitchToLight    \<comment> \<open>caption of the theme button while the theme is dark (line 271)\<close>
  | CaptionSwitchToDark     \<comment> \<open>caption of the theme button while the theme is light (line 271)\<close>
  | AriaSwitchToLight       \<comment> \<open>aria-label while the theme is dark (line 273)\<close>
  | AriaSwitchToDark        \<comment> \<open>aria-label while the theme is light (line 273)\<close>
  | AriaBackToTop           \<comment> \<open>aria-label of the scroll-to-top button (line 156)\<close>

text \<open>What the script prints, one constructor for each \<open>console\<close> call of the source.\<close>

datatype console_msg =
    WarnScrollTargetMissing       \<comment> \<open>line 49\<close>
  | WarnStorageSetFailed          \<comment> \<open>line 84\<close>
  | WarnStorageGetFailed          \<comment> \<open>line 98\<close>
  | WarnAlreadyInitialized        \<comment> \<open>line 127\<close>
  | LogInitialized                \<comment> \<open>line 138\<close>
  | LogThemeSwitched bool         \<comment> \<open>line 254; the flag is \<open>newTheme === 'dark'\<close>\<close>
  | LogSearch jsstring            \<comment> \<open>line 352; the text between the quotes\<close>
  | UncaughtTypeError             \<comment> \<open>an exception that left a listener, reported by the browser\<close>

definition STORAGE_KEYS_THEME :: string where
  "STORAGE_KEYS_THEME = ''site-theme''"

definition SCROLL_THRESHOLD :: real where
  "SCROLL_THRESHOLD = 300"

definition DEBOUNCE_DELAY :: nat where
  "DEBOUNCE_DELAY = 100"

definition ANIMATION_DELAY :: nat where
  "ANIMATION_DELAY = 120"

subsection \<open>The document, the window and the instance\<close>

text \<open>The elements the script looks up by id or selector in \<open>setupElements\<close>.\<close>

datatype elem =
    ThemeToggle       \<comment> \<open>\<open>#themeToggle\<close>\<close>
  | HomeBtn           \<comment> \<open>\<open>#homeBtn\<close>\<close>
  | ScrollToSearch    \<comment> \<open>\<open>#scrollToSearch\<close>\<close>
  | SearchSection     \<comment> \<open>\<open>#search\<close>\<close>
  | ScrollTopBtn      \<comment> \<open>\<open>#scrollTopBtn\<close>\<close>
  | SearchForm        \<comment> \<open>\<open>.search-engine form\<close>\<close>

datatype node = DocumentElement | Elem elem

text \<open>An element selected by class: its class list and the inline
  \<open>animation-delay\<close> in milliseconds (\<open>None\<close> while the script has not set it).\<close>

record block =
  classList :: "string list"
  animationDelay :: "nat option"

datatype target = TDocument | TWindow | TMediaQuery | TElem elem | TBlock nat

datatype event =
    DOMContentLoaded
  | Click
  | Keydown string      \<comment> \<open>\<open>e.key\<close>\<close>
  | Scroll
  | Submit
  | MouseEnter
  | MouseLeave
  | Change bool         \<comment> \<open>\<open>e.matches\<close> of the media query\<close>

datatype evtype =
  EvDOMContentLoaded | EvClick | EvKeydown | EvScroll | EvSubmit | EvMouseEnter | EvMouseLeave
  | EvChange

fun evtype_of :: "event \<Rightarrow> evtype" where
  "evtype_of DOMContentLoaded = EvDOMContentLoaded"
| "evtype_of Click = EvClick"
| "evtype_of (Keydown k) = EvKeydown"
| "evtype_of Scroll = EvScroll"
| "evtype_of Submit = EvSubmit"
| "evtype_of MouseEnter = EvMouseEnter"
| "evtype_of MouseLeave = EvMouseLeave"
| "evtype_of (Change m) = EvChange"

text \<open>The closures the script registers as listeners, by the line that creates them.
  A debounced closure carries the number of its own timer.\<close>

datatype handler =
    OnDOMContentLoaded      \<comment> \<open>line 131\<close>
  | OnThemeClick            \<comment> \<open>line 168\<close>
  | OnHomeClick             \<comment> \<open>line 173\<close>
  | OnSearchBtnClick        \<comment> \<open>line 177\<close>
  | OnScrollDebounced nat   \<comment> \<open>line 185\<close>
  | OnScrollTopClick        \<comment> \<open>line 188\<close>
  | OnScrollTopKeydown      \<comment> \<open>line 190\<close>
  | OnSubmit                \<comment> \<open>line 200\<close>
  | OnSystemThemeChange     \<comment> \<open>line 215\<close>
  | OnBlockEnter nat        \<comment> \<open>line 333\<close>
  | OnBlockLeave nat        \<comment> \<open>line 337\<close>

datatype scroll_call =
    WindowScrollTo "(string \<times> string) list"          \<comment> \<open>\<open>window.scrollTo(options)\<close>\<close>
  | ScrollIntoView elem "(string \<times> string) list"     \<comment> \<open>\<open>element.scrollIntoView(options)\<close>\<close>

datatype js_error = TypeError | SecurityError | StorageError

text \<open>\<open>localStorage\<close>: its items; whether evaluating \<open>localStorage\<close> itself throws
  (storage disabled: no method of it is reached then); whether \<open>getItem\<close> and \<open>setItem\<close>
  throw when they are called (for \<open>setItem\<close>: storage full); and every \<open>setItem\<close> call
  that was made, whether it threw or not.\<close>

record storage =
  items :: "string \<rightharpoonup> string"
  accessThrows :: bool
  getItemThrows :: bool
  setItemThrows :: bool
  setItemCalls :: "(string \<times> string) list"

text \<open>The fields of the \<open>WindowsHistoryApp\<close> instance (constructor, lines 108-120).\<close>

record app =
  themeBtn :: "elem option"
  homeBtn :: "elem option"
  searchBtn :: "elem option"
  searchSection :: "elem option"
  scrollTopBtn :: "elem option"
  searchForm :: "elem option"
  currentTheme :: string
  isInitialized :: bool

record state =
  app :: app
  localStorage :: storage
  console :: "console_msg list"
  inDocument :: "elem \<Rightarrow> bool"                      \<comment> \<open>which looked-up elements the page has\<close>
  attributes :: "node \<times> string \<rightharpoonup> dom_string"      \<comment> \<open>attributes set on an element\<close>
  textContent :: "elem \<rightharpoonup> dom_string"
  scrollTopClasses :: "string list"                  \<comment> \<open>class list of \<open>#scrollTopBtn\<close>\<close>
  blocks :: "block list"                             \<comment> \<open>the class-bearing elements, in document order\<close>
  searchInput :: "jsstring option"                   \<comment> \<open>value of \<open>input[name="q"]\<close> in the form, if any\<close>
  activeElement :: "elem option"                     \<comment> \<open>the looked-up element that has focus, if one has\<close>
  listeners :: "(target \<times> evtype \<times> handler) list"
  prefersDark :: bool                                \<comment> \<open>\<open>matchMedia('(prefers-color-scheme: dark)').matches\<close>\<close>
  scrollY :: real
  scrollCalls :: "scroll_call list"
  timers :: "nat list"                               \<comment> \<open>debounce timers that are pending\<close>
  nextTimer :: nat
  contentLoaded :: bool                              \<comment> \<open>\<open>DOMContentLoaded\<close> has fired\<close>
  defaultPrevented :: bool                           \<comment> \<open>of the event being dispatched\<close>

subsection \<open>Helpers of the script (lines 28-101)\<close>

definition warn :: "console_msg \<Rightarrow> state \<Rightarrow> state" where
  "warn m s = s\<lparr>console := console s @ [m]\<rparr>"

definition setAttribute :: "node \<Rightarrow> string \<Rightarrow> dom_string \<Rightarrow> state \<Rightarrow> state" where
  "setAttribute n k v s = s\<lparr>attributes := (attributes s)((n, k) \<mapsto> v)\<rparr>"

text \<open>An object literal with a spread, \<open>{...base, ...extra}\<close>: a key of \<open>extra\<close> overwrites
  the value in place, a new key is appended.\<close>

definition spread :: "('k \<times> 'v) list \<Rightarrow> ('k \<times> 'v) list \<Rightarrow> ('k \<times> 'v) list" where
  "spread base extra = fold (\<lambda>(k, v). AList.update k v) extra base"

definition smoothScrollToElement ::
    "elem option \<Rightarrow> (string \<times> string) list \<Rightarrow> state \<Rightarrow> state" where
  "smoothScrollToElement element options s =
     (case element of
        None \<Rightarrow> warn WarnScrollTargetMissing s
      | Some el \<Rightarrow>
          (let defaultOptions = spread [(''behavior'', ''smooth''), (''block'', ''center'')] options
           in s\<lparr>scrollCalls := scrollCalls s @ [ScrollIntoView el defaultOptions]\<rparr>))"

definition setAccessibilityAttributes ::
    "elem \<Rightarrow> (string \<times> dom_string) list \<Rightarrow> state \<Rightarrow> state" where
  "setAccessibilityAttributes element attrs s =
     fold (\<lambda>(key, v). setAttribute (Elem element) key v) attrs s"

text \<open>The expression \<open>localStorage\<close> is a getter of the window and throws where the
  storage is disabled.\<close>

definition window_localStorage :: "state \<Rightarrow> js_error + storage" where
  "window_localStorage s =
     (if accessThrows (localStorage s) then Inl SecurityError else Inr (localStorage s))"

text \<open>\<open>setItem\<close> and \<open>getItem\<close>, once the storage object is at hand, may throw; the result
  says whether the call threw, beside the state it left.\<close>

definition localStorage_setItem ::
    "string \<Rightarrow> string \<Rightarrow> state \<Rightarrow> js_error option \<times> state" where
  "localStorage_setItem key v s =
     (let ls = (localStorage s)\<lparr>setItemCalls := setItemCalls (localStorage s) @ [(key, v)]\<rparr>
      in if setItemThrows ls then (Some StorageError, s\<lparr>localStorage := ls\<rparr>)
         else (None, s\<lparr>localStorage := ls\<lparr>items := (items ls)(key \<mapsto> v)\<rparr>\<rparr>))"

definition localStorage_getItem :: "string \<Rightarrow> state \<Rightarrow> js_error + string option" where
  "localStorage_getItem key s =
     (if getItemThrows (localStorage s) then Inl StorageError
      else Inr (items (localStorage s) key))"

definition safeSetStorage :: "string \<Rightarrow> string \<Rightarrow> state \<Rightarrow> bool \<times> state" where
  "safeSetStorage key v s =
     (case window_localStorage s of
        Inl error \<Rightarrow> (False, warn WarnStorageSetFailed s)
      | Inr ls \<Rightarrow>
          (case localStorage_setItem key v s of
             (None, s') \<Rightarrow> (True, s')
           | (Some error, s') \<Rightarrow> (False, warn WarnStorageSetFailed s')))"

definition safeGetStorage :: "string \<Rightarrow> state \<Rightarrow> string option \<times> state" where
  "safeGetStorage key s =
     (case window_localStorage s of
        Inl error \<Rightarrow> (None, warn WarnStorageGetFailed s)
      | Inr ls \<Rightarrow>
          (case localStorage_getItem key s of
             Inr v \<Rightarrow> (v, s)
           | Inl error \<Rightarrow> (None, warn WarnStorageGetFailed s)))"

subsection \<open>The class \<open>WindowsHistoryApp\<close> (lines 107-360)\<close>

text \<open>\<open>addEventListener\<close> with a closure created at the call: the listener is always a
  new one, so it is appended even when the same line has registered one before.\<close>

definition addEventListener :: "target \<Rightarrow> evtype \<Rightarrow> handler \<Rightarrow> state \<Rightarrow> state" where
  "addEventListener t ty h s = s\<lparr>listeners := listeners s @ [(t, ty, h)]\<rparr>"

definition getElementById :: "elem \<Rightarrow> state \<Rightarrow> elem option" where
  "getElementById e s = (if inDocument s e then Some e else None)"

definition init :: "state \<Rightarrow> state" where
  "init s =
     (if isInitialized (app s) then warn WarnAlreadyInitialized s
      else addEventListener TDocument EvDOMContentLoaded OnDOMContentLoaded s)"

definition constructor :: "state \<Rightarrow> state" where
  "constructor s =
     init (s\<lparr>app := \<lparr>themeBtn = None, homeBtn = None, searchBtn = None, searchSection = None,
                      scrollTopBtn = None, searchForm = None,
                      currentTheme = ''light'', isInitialized = False\<rparr>\<rparr>)"

definition setupElements :: "state \<Rightarrow> state" where
  "setupElements s =
     (let s1 = s\<lparr>app := (app s)\<lparr>
                  themeBtn := getElementById ThemeToggle s,
                  homeBtn := getElementById HomeBtn s,
                  searchBtn := getElementById ScrollToSearch s,
                  searchSection := getElementById SearchSection s,
                  scrollTopBtn := getElementById ScrollTopBtn s,
                  searchForm := getElementById SearchForm s\<rparr>\<rparr>
      in case scrollTopBtn (app s1) of
           None \<Rightarrow> s1
         | Some b \<Rightarrow>
             setAccessibilityAttributes b
               [(''aria-label'', AriaBackToTop), (''aria-hidden'', Str ''false'')] s1)"

text \<open>\<open>querySelectorAll\<close> with a list of class selectors: the positions, in document
  order, of the blocks that carry one of the classes.\<close>

definition matches :: "string list \<Rightarrow> block \<Rightarrow> bool" where
  "matches sel b = list_ex (\<lambda>c. c \<in> set (classList b)) sel"

definition querySelectorAll :: "string list \<Rightarrow> state \<Rightarrow> nat list" where
  "querySelectorAll sel s = filter (\<lambda>i. matches sel (blocks s ! i)) [0..<length (blocks s)]"

definition classList_add :: "string \<Rightarrow> string list \<Rightarrow> string list" where
  "classList_add c cs = (if c \<in> set cs then cs else cs @ [c])"

definition classList_remove :: "string \<Rightarrow> string list \<Rightarrow> string list" where
  "classList_remove c cs = filter (\<lambda>x. x \<noteq> c) cs"

definition updateBlock :: "nat \<Rightarrow> (block \<Rightarrow> block) \<Rightarrow> state \<Rightarrow> state" where
  "updateBlock i f s = s\<lparr>blocks := (blocks s)[i := f (blocks s ! i)]\<rparr>"

definition setupHoverEffects :: "state \<Rightarrow> state" where
  "setupHoverEffects s =
     (let contentBlocks = querySelectorAll [''content-block'', ''quad-block''] s
      in fold (\<lambda>blk s'. addEventListener (TBlock blk) EvMouseLeave (OnBlockLeave blk)
                          (addEventListener (TBlock blk) EvMouseEnter (OnBlockEnter blk) s'))
           contentBlocks s)"

definition setupEventListeners :: "state \<Rightarrow> state" where
  "setupEventListeners s =
     (let s1 = (case themeBtn (app s) of
                  None \<Rightarrow> s
                | Some b \<Rightarrow> addEventListener (TElem b) EvClick OnThemeClick s);
          s2 = (case homeBtn (app s1) of
                  None \<Rightarrow> s1
                | Some b \<Rightarrow> addEventListener (TElem b) EvClick OnHomeClick s1);
          s3 = (case (searchBtn (app s2), searchSection (app s2)) of
                  (Some b, Some sec) \<Rightarrow> addEventListener (TElem b) EvClick OnSearchBtnClick s2
                | _ \<Rightarrow> s2);
          s4 = (case scrollTopBtn (app s3) of
                  None \<Rightarrow> s3
                | Some b \<Rightarrow>
                    addEventListener (TElem b) EvKeydown OnScrollTopKeydown
                      (addEventListener (TElem b) EvClick OnScrollTopClick
                        ((addEventListener TWindow EvScroll (OnScrollDebounced (nextTimer s3)) s3)
                           \<lparr>nextTimer := Suc (nextTimer s3)\<rparr>)));
          s5 = (case searchForm (app s4) of
                  None \<Rightarrow> s4
                | Some f \<Rightarrow> addEventListener (TElem f) EvSubmit OnSubmit s4)
      in setupHoverEffects s5)"

definition applyTheme :: "string \<Rightarrow> bool \<Rightarrow> state \<Rightarrow> state" where
  "applyTheme theme save s =
     (let s1 = s\<lparr>app := (app s)\<lparr>currentTheme := theme\<rparr>\<rparr>;
          isDark = (theme = ''dark'');
          s2 = setAttribute DocumentElement ''data-theme'' (Str theme) s1;
          s3 = (case themeBtn (app s2) of
                  None \<Rightarrow> s2
                | Some b \<Rightarrow>
                    setAttribute (Elem b) ''aria-label''
                      (if isDark then AriaSwitchToLight else AriaSwitchToDark)
                      (s2\<lparr>textContent := (textContent s2)
                            (b \<mapsto> (if isDark then CaptionSwitchToLight else CaptionSwitchToDark))\<rparr>))
      in if save then snd (safeSetStorage STORAGE_KEYS_THEME theme s3) else s3)"

definition determineInitialTheme :: "state \<Rightarrow> state" where
  "determineInitialTheme s =
     (case safeGetStorage STORAGE_KEYS_THEME s of
        (storedTheme, s1) \<Rightarrow>
          if storedTheme = Some ''dark'' \<or> storedTheme = Some ''light''
          then (case storedTheme of Some t \<Rightarrow> applyTheme t False s1 | None \<Rightarrow> s1)
          else applyTheme (if prefersDark s1 then ''dark'' else ''light'') False s1)"

definition setupTheme :: "state \<Rightarrow> state" where
  "setupTheme s =
     addEventListener TMediaQuery EvChange OnSystemThemeChange (determineInitialTheme s)"

text \<open>\<open>!userChoice\<close>: \<open>null\<close> and the empty string are falsy.\<close>

definition falsy :: "string option \<Rightarrow> bool" where
  "falsy v = (v = None \<or> v = Some [])"

definition handleSystemThemeChange :: "bool \<Rightarrow> state \<Rightarrow> state" where
  "handleSystemThemeChange e_matches s =
     (case safeGetStorage STORAGE_KEYS_THEME s of
        (userChoice, s1) \<Rightarrow>
          if falsy userChoice
          then applyTheme (if e_matches then ''dark'' else ''light'') False s1
          else s1)"

definition toggleTheme :: "state \<Rightarrow> state" where
  "toggleTheme s =
     (let newTheme = (if currentTheme (app s) = ''dark'' then ''light'' else ''dark'');
          s1 = applyTheme newTheme True s
      in s1\<lparr>console := console s1 @ [LogThemeSwitched (newTheme = ''dark'')]\<rparr>)"

text \<open>\<open>forEach((el, index) => ...)\<close> over a node list: the callback is given the element
  and its position in the list.\<close>

definition forEach_indexed :: "nat list \<Rightarrow> (nat \<Rightarrow> nat \<Rightarrow> state \<Rightarrow> state) \<Rightarrow> state \<Rightarrow> state" where
  "forEach_indexed els f s = fold (\<lambda>(el, index). f el index) (zip els [0..<length els]) s"

definition fadeSelector :: "string list" where
  "fadeSelector = [''content-block'', ''main-title'', ''green-gradient-heading'', ''quad-block'']"

definition animateIntro :: "state \<Rightarrow> state" where
  "animateIntro s =
     (let fadeElements = querySelectorAll fadeSelector s
      in forEach_indexed fadeElements
           (\<lambda>el index. updateBlock el
              (\<lambda>b. b\<lparr>classList := classList_add ''fade-in'' (classList b),
                      animationDelay := Some (index * ANIMATION_DELAY)\<rparr>))
           s)"

definition scrollToTop :: "state \<Rightarrow> state" where
  "scrollToTop s =
     (let s1 = s\<lparr>scrollCalls := scrollCalls s @
                   [WindowScrollTo [(''top'', ''0''), (''behavior'', ''smooth'')]]\<rparr>
      in case scrollTopBtn (app s1) of
           None \<Rightarrow> s1
         | Some b \<Rightarrow> s1\<lparr>activeElement := Some b\<rparr>)"

definition toggleScrollButton :: "state \<Rightarrow> state" where
  "toggleScrollButton s =
     (case scrollTopBtn (app s) of
        None \<Rightarrow> s
      | Some b \<Rightarrow>
          (let isVisible = (scrollY s > SCROLL_THRESHOLD)
           in if isVisible
              then s\<lparr>scrollTopClasses := classList_add ''visible'' (scrollTopClasses s)\<rparr>
              else s\<lparr>scrollTopClasses := classList_remove ''visible'' (scrollTopClasses s)\<rparr>))"

text \<open>\<open>String.prototype.trim\<close> removes white space and line terminators from both ends.\<close>

definition isWhiteSpace :: "16 word \<Rightarrow> bool" where
  "isWhiteSpace c =
     (c \<in> set [0x0009, 0x000A, 0x000B, 0x000C, 0x000D, 0x0020, 0x00A0, 0x1680,
                0x2000, 0x2001, 0x2002, 0x2003, 0x2004, 0x2005, 0x2006, 0x2007, 0x2008,
                0x2009, 0x200A, 0x2028, 0x2029, 0x202F, 0x205F, 0x3000, 0xFEFF])"

definition trim :: "jsstring \<Rightarrow> jsstring" where
  "trim v = rev (dropWhile isWhiteSpace (rev (dropWhile isWhiteSpace v)))"

text \<open>\<open>this.searchForm.querySelector\<close> on a \<open>null\<close> form is a TypeError.\<close>

definition handleSearch :: "state \<Rightarrow> js_error + state" where
  "handleSearch s =
     (case searchForm (app s) of
        None \<Rightarrow> Inl TypeError
      | Some form \<Rightarrow>
          (case searchInput s of
             None \<Rightarrow> Inr s
           | Some v \<Rightarrow>
               if trim v \<noteq> []
               then (let searchQuery = trim v
                     in Inr (s\<lparr>console := console s @ [LogSearch searchQuery]\<rparr>))
               else Inr s))"

subsection \<open>Events\<close>

text \<open>What each registered closure does when its event is dispatched. The debounced
  scroll listener clears its timer and sets it again; \<open>toggleScrollButton\<close> runs when
  the timer fires.\<close>

definition preventDefault :: "state \<Rightarrow> state" where
  "preventDefault s = s\<lparr>defaultPrevented := True\<rparr>"

definition onDOMContentLoaded :: "state \<Rightarrow> state" where
  "onDOMContentLoaded s =
     (let s1 = setupElements s;
          s2 = setupEventListeners s1;
          s3 = setupTheme s2;
          s4 = animateIntro s3;
          s5 = s4\<lparr>app := (app s4)\<lparr>isInitialized := True\<rparr>\<rparr>
      in s5\<lparr>console := console s5 @ [LogInitialized]\<rparr>)"

definition hover :: "(string \<Rightarrow> string list \<Rightarrow> string list) \<Rightarrow> nat \<Rightarrow> state \<Rightarrow> state" where
  "hover change blk s =
     updateBlock blk (\<lambda>b. b\<lparr>classList := change ''is-hovered'' (classList b)\<rparr>) s"

fun runHandler :: "handler \<Rightarrow> event \<Rightarrow> state \<Rightarrow> state" where
  "runHandler OnDOMContentLoaded e s = onDOMContentLoaded s"
| "runHandler OnThemeClick e s = toggleTheme s"
| "runHandler OnHomeClick e s = scrollToTop s"
| "runHandler OnSearchBtnClick e s = smoothScrollToElement (searchSection (app s)) [] s"
| "runHandler (OnScrollDebounced k) e s =
     s\<lparr>timers := (if k \<in> set (timers s) then timers s else timers s @ [k])\<rparr>"
| "runHandler OnScrollTopClick e s = scrollToTop s"
| "runHandler OnScrollTopKeydown e s =
     (case e of
        Keydown key \<Rightarrow>
          if key = ''Enter'' \<or> key = '' '' then scrollToTop (preventDefault s) else s
      | _ \<Rightarrow> s)"
| "runHandler OnSubmit e s =
     (case handleSearch s of Inr s' \<Rightarrow> s' | Inl err \<Rightarrow> warn UncaughtTypeError s)"
| "runHandler OnSystemThemeChange e s =
     (case e of Change m \<Rightarrow> handleSystemThemeChange m s | _ \<Rightarrow> s)"
| "runHandler (OnBlockEnter blk) e s = hover classList_add blk s"
| "runHandler (OnBlockLeave blk) e s = hover classList_remove blk s"

text \<open>Dispatch runs the listeners registered on the target for the event's type, in the
  order of registration; a listener added during the dispatch is not run by it.\<close>

definition listenersFor :: "target \<Rightarrow> evtype \<Rightarrow> state \<Rightarrow> handler list" where
  "listenersFor t ty s =
     map (\<lambda>(t', ty', h). h) (filter (\<lambda>(t', ty', h). t' = t \<and> ty' = ty) (listeners s))"

definition dispatchEvent :: "target \<Rightarrow> event \<Rightarrow> state \<Rightarrow> state" where
  "dispatchEvent t e s =
     fold (\<lambda>h. runHandler h e) (listenersFor t (evtype_of e) s) (s\<lparr>defaultPrevented := False\<rparr>)"

text \<open>What the browser, the user and other scripts can do to the page once the script
  has been evaluated.\<close>

datatype input =
    PageLoaded              \<comment> \<open>the browser fires \<open>DOMContentLoaded\<close>, once\<close>
  | InitCalled              \<comment> \<open>a further call of \<open>app.init()\<close>\<close>
  | UserClick elem
  | UserKeydown elem string
  | UserScroll real
  | TimerFires nat
  | UserSubmit
  | PointerEnters nat
  | PointerLeaves nat
  | SystemTheme bool        \<comment> \<open>the system colour scheme becomes dark (\<open>True\<close>) or light\<close>

fun step :: "input \<Rightarrow> state \<Rightarrow> state" where
  "step PageLoaded s =
     (if contentLoaded s then s
      else (dispatchEvent TDocument DOMContentLoaded s)\<lparr>contentLoaded := True\<rparr>)"
| "step InitCalled s = init s"
| "step (UserClick el) s =
     (if inDocument s el then dispatchEvent (TElem el) Click s else s)"
| "step (UserKeydown el key) s =
     (if inDocument s el then dispatchEvent (TElem el) (Keydown key) s else s)"
| "step (UserScroll y) s = dispatchEvent TWindow Scroll (s\<lparr>scrollY := y\<rparr>)"
| "step (TimerFires k) s =
     (if k \<in> set (timers s) then toggleScrollButton (s\<lparr>timers := removeAll k (timers s)\<rparr>)
      else s)"
| "step UserSubmit s =
     (if inDocument s SearchForm then dispatchEvent (TElem SearchForm) Submit s else s)"
| "step (PointerEnters blk) s =
     (if blk < length (blocks s) then dispatchEvent (TBlock blk) MouseEnter s else s)"
| "step (PointerLeaves blk) s =
     (if blk < length (blocks s) then dispatchEvent (TBlock blk) MouseLeave s else s)"
| "step (SystemTheme m) s =
     (if prefersDark s = m then s
      else dispatchEvent TMediaQuery (Change m) (s\<lparr>prefersDark := m\<rparr>))"

definition run :: "input list \<Rightarrow> state \<Rightarrow> state" where
  "run ins s = fold step ins s"

text \<open>A page to evaluate the script on: the six looked-up elements are present, the
  storage is empty and works, the system prefers the light scheme, and the document has
  a title, two content blocks and an unrelated paragraph between them.\<close>

definition examplePage :: state where
  "examplePage =
     \<lparr>app = \<lparr>themeBtn = None, homeBtn = None, searchBtn = None, searchSection = None,
              scrollTopBtn = None, searchForm = None, currentTheme = [], isInitialized = False\<rparr>,
      localStorage = \<lparr>items = Map.empty, accessThrows = False, getItemThrows = False,
                       setItemThrows = False, setItemCalls = []\<rparr>,
      console = [],
      inDocument = (\<lambda>e. True),
      attributes = Map.empty,
      textContent = Map.empty,
      scrollTopClasses = [],
      blocks = [\<lparr>classList = [''main-title''], animationDelay = None\<rparr>,
                \<lparr>classList = [''content-block''], animationDelay = None\<rparr>,
                \<lparr>classList = [''note''], animationDelay = None\<rparr>,
                \<lparr>classList = [''quad-block'', ''wide''], animationDelay = None\<rparr>],
      searchInput = Some [],
      activeElement = None,
      listeners = [],
      prefersDark = False,
      scrollY = 0,
      scrollCalls = [],
      timers = [],
      nextTimer = 0,
      contentLoaded = False,
      defaultPrevented = False\<rparr>"

text \<open>The script's last statement creates the instance; then the page finishes loading.\<close>

definition loadedPage :: "state \<Rightarrow> state" where
  "loadedPage page = step PageLoaded (constructor page)"

definition withStorage :: "(string \<times> string) list \<Rightarrow> bool \<Rightarrow> bool \<Rightarrow> state \<Rightarrow> state" where
  "withStorage kvs getThrows setThrows s =
     s\<lparr>localStorage := \<lparr>items = map_of kvs, accessThrows = False, getItemThrows = getThrows,
                          setItemThrows = setThrows, setItemCalls = []\<rparr>\<rparr>"

definition storageDisabled :: "state \<Rightarrow> state" where
  "storageDisabled s = s\<lparr>localStorage := (localStorage s)\<lparr>accessThrows := True\<rparr>\<rparr>"

definition withoutSection :: "state \<Rightarrow> state" where
  "withoutSection s = s\<lparr>inDocument := (\<lambda>e. e \<noteq> SearchSection)\<rparr>"

text \<open>ASCII text as UTF-16 code units, to write search input down.\<close>

definition utf16 :: "string \<Rightarrow> jsstring" where
  "utf16 cs = map (\<lambda>c. of_nat (of_char c)) cs"

subsection \<open>What the properties speak about\<close>

text \<open>The caption and the aria-label \<open>applyTheme\<close> gives the theme button for a theme.\<close>

definition caption :: "string \<Rightarrow> dom_string" where
  "caption t = (if t = ''dark'' then CaptionSwitchToLight else CaptionSwitchToDark)"

definition ariaLabel :: "string \<Rightarrow> dom_string" where
  "ariaLabel t = (if t = ''dark'' then AriaSwitchToLight else AriaSwitchToDark)"

text \<open>A theme is applied when the instance holds it, the root element carries it as
  \<open>data-theme\<close>, and the theme button, where the instance has one, is labelled for it.\<close>

definition themeApplied :: "string \<Rightarrow> state \<Rightarrow> bool" where
  "themeApplied t s =
     (currentTheme (app s) = t \<and>
      attributes s (DocumentElement, ''data-theme'') = Some (Str t) \<and>
      (case themeBtn (app s) of
         None \<Rightarrow> True
       | Some b \<Rightarrow> textContent s b = Some (caption t) \<and>
                  attributes s (Elem b, ''aria-label'') = Some (ariaLabel t)))"

definition storedTheme :: "state \<Rightarrow> string option" where
  "storedTheme s = items (localStorage s) STORAGE_KEYS_THEME"

definition systemTheme :: "state \<Rightarrow> string" where
  "systemTheme s = (if prefersDark s then ''dark'' else ''light'')"

definition opposite :: "string \<Rightarrow> string" where
  "opposite t = (if t = ''dark'' then ''light'' else ''dark'')"

text \<open>A \<open>setItem\<close> call that stores a theme name under the theme key.\<close>

definition themeWrite :: "string \<times> string \<Rightarrow> bool" where
  "themeWrite kv = (fst kv = STORAGE_KEYS_THEME \<and> (snd kv = ''light'' \<or> snd kv = ''dark''))"

text \<open>How the storage can differ between two states of one run: the failure modes stay,
  the calls made in between are theme writes, no other key changes, and the theme key
  keeps its value or holds a theme name.\<close>

definition storageEvolves :: "storage \<Rightarrow> storage \<Rightarrow> bool" where
  "storageEvolves a b =
     (accessThrows b = accessThrows a \<and>
      getItemThrows b = getItemThrows a \<and> setItemThrows b = setItemThrows a \<and>
      (\<exists>ws. setItemCalls b = setItemCalls a @ ws \<and> list_all themeWrite ws) \<and>
      (\<forall>k. k \<noteq> STORAGE_KEYS_THEME \<longrightarrow> items b k = items a k) \<and>
      (items b STORAGE_KEYS_THEME = items a STORAGE_KEYS_THEME \<or>
       items b STORAGE_KEYS_THEME = Some ''light'' \<or>
       items b STORAGE_KEYS_THEME = Some ''dark''))"

text \<open>A read of the storage fails when \<open>localStorage\<close> or \<open>getItem\<close> throws, a write when
  \<open>localStorage\<close> or \<open>setItem\<close> throws.\<close>

definition readFails :: "state \<Rightarrow> bool" where
  "readFails s = (accessThrows (localStorage s) \<or> getItemThrows (localStorage s))"

definition writeFails :: "state \<Rightarrow> bool" where
  "writeFails s = (accessThrows (localStorage s) \<or> setItemThrows (localStorage s))"

text \<open>The storage works and holds a theme name under the theme key.\<close>

definition choicePersisted :: "state \<Rightarrow> bool" where
  "choicePersisted s =
     (\<not> readFails s \<and> \<not> writeFails s \<and>
      (storedTheme s = Some ''light'' \<or> storedTheme s = Some ''dark''))"

text \<open>A page as the browser hands it to the script: no listener is registered and
  \<open>DOMContentLoaded\<close> has not fired.\<close>

definition fresh :: "state \<Rightarrow> bool" where
  "fresh p = (listeners p = [] \<and> \<not> contentLoaded p)"

text \<open>What the script reads of the page and never writes.\<close>

definition surroundings :: "state \<Rightarrow> (elem \<Rightarrow> bool) \<times> jsstring option \<times> bool" where
  "surroundings s = (inDocument s, searchInput s, prefersDark s)"

text \<open>The scroll-to-top handle of the instance is empty or is the scroll-to-top button.\<close>

definition scrollTopResolved :: "state \<Rightarrow> bool" where
  "scrollTopResolved s =
     (scrollTopBtn (app s) = None \<or> scrollTopBtn (app s) = Some ScrollTopBtn)"

text \<open>Every listener on the colour-scheme media query is the one \<open>setupTheme\<close>
  registers. It holds of a page on which no other script has registered one.\<close>

definition mediaWired :: "state \<Rightarrow> bool" where
  "mediaWired s =
     list_all (\<lambda>(t, ty, h). t = TMediaQuery \<longrightarrow> h = OnSystemThemeChange) (listeners s)"

text \<open>The element that has the focus and the scroll-to-top handle of the instance.\<close>

definition focusView :: "state \<Rightarrow> elem option \<times> elem option" where
  "focusView s = (activeElement s, scrollTopBtn (app s))"

text \<open>The listeners \<open>setupEventListeners\<close> registers on an element for an event type,
  read off the handles of the instance, in the order of registration.\<close>

definition wiringFor :: "elem \<Rightarrow> evtype \<Rightarrow> state \<Rightarrow> handler list" where
  "wiringFor x ty s =
     (if themeBtn (app s) = Some x \<and> EvClick = ty then [OnThemeClick] else []) @
     (if homeBtn (app s) = Some x \<and> EvClick = ty then [OnHomeClick] else []) @
     (if searchBtn (app s) = Some x \<and> searchSection (app s) \<noteq> None \<and> EvClick = ty
      then [OnSearchBtnClick] else []) @
     (if scrollTopBtn (app s) = Some x \<and> EvClick = ty then [OnScrollTopClick] else []) @
     (if scrollTopBtn (app s) = Some x \<and> EvKeydown = ty then [OnScrollTopKeydown] else []) @
     (if searchForm (app s) = Some x \<and> EvSubmit = ty then [OnSubmit] else [])"

text \<open>From one state to a later one the focus has stayed or has gone to the
  scroll-to-top button, and the handle is still resolved.\<close>

definition focusKept :: "state \<Rightarrow> state \<Rightarrow> bool" where
  "focusKept s s' =
     (scrollTopResolved s' \<and>
      (activeElement s' = activeElement s \<or> activeElement s' = Some ScrollTopBtn))"

section \<open>Properties\<close>

subsection \<open>Storage access and \<open>applyTheme\<close>\<close>

lemma safeGetStorage_eq:
  "safeGetStorage k s =
     (if readFails s then (None, warn WarnStorageGetFailed s)
      else (items (localStorage s) k, s))"
  by (simp add: safeGetStorage_def localStorage_getItem_def window_localStorage_def readFails_def)

lemma localStorage_warn [simp]: "localStorage (warn m s) = localStorage s"
  by (simp add: warn_def)

lemma applyTheme_no_save_storage:
  "localStorage (applyTheme t False s) = localStorage s"
  by (simp add: applyTheme_def setAttribute_def Let_def split: option.splits)

lemma applyTheme_applied: "themeApplied t (applyTheme t sv s)"
  by (simp add: themeApplied_def applyTheme_def setAttribute_def safeSetStorage_def window_localStorage_def
      localStorage_setItem_def warn_def caption_def ariaLabel_def Let_def split: option.splits)

lemma themeApplied_warn [simp]: "themeApplied t (warn m s) = themeApplied t s"
  by (simp add: themeApplied_def warn_def split: option.splits)

lemma themeApplied_console [simp]: "themeApplied t (s\<lparr>console := c\<rparr>) = themeApplied t s"
  by (simp add: themeApplied_def split: option.splits)

lemma toggleTheme_eq:
  "toggleTheme s =
     (let s1 = applyTheme (opposite (currentTheme (app s))) True s
      in s1\<lparr>console := console s1 @ [LogThemeSwitched (opposite (currentTheme (app s)) = ''dark'')]\<rparr>)"
  by (simp add: toggleTheme_def opposite_def Let_def)

lemma applyTheme_save_storage:
  "localStorage (applyTheme t True s) =
     (if accessThrows (localStorage s) then localStorage s
      else (localStorage s)
             \<lparr>setItemCalls := setItemCalls (localStorage s) @ [(STORAGE_KEYS_THEME, t)],
              items := (if setItemThrows (localStorage s) then items (localStorage s)
                        else (items (localStorage s))(STORAGE_KEYS_THEME \<mapsto> t))\<rparr>)"
  by (simp add: applyTheme_def setAttribute_def safeSetStorage_def window_localStorage_def localStorage_setItem_def
      warn_def Let_def split: option.splits)

lemma toggleTheme_storage:
  "localStorage (toggleTheme s) =
     (if accessThrows (localStorage s) then localStorage s
      else (localStorage s)
             \<lparr>setItemCalls := setItemCalls (localStorage s) @
                [(STORAGE_KEYS_THEME, opposite (currentTheme (app s)))],
              items := (if setItemThrows (localStorage s) then items (localStorage s)
                        else (items (localStorage s))
                               (STORAGE_KEYS_THEME \<mapsto> opposite (currentTheme (app s))))\<rparr>)"
  by (simp add: toggleTheme_eq Let_def applyTheme_save_storage)

lemma toggleTheme_applied: "themeApplied (opposite (currentTheme (app s))) (toggleTheme s)"
  by (simp add: toggleTheme_eq Let_def applyTheme_applied)

lemma opposite_opposite: "t = ''light'' \<or> t = ''dark'' \<Longrightarrow> opposite (opposite t) = t"
  by (auto simp add: opposite_def)

lemma opposite_cases: "opposite t = ''light'' \<or> opposite t = ''dark''"
  by (simp add: opposite_def)

subsection \<open>What leaves the storage alone\<close>

lemma fold_frame:
  assumes "\<And>x s. P (f x s) = P s"
  shows "P (fold f xs s) = P s"
  using assms by (induction xs arbitrary: s) simp_all

lemma localStorage_setAttribute [simp]: "localStorage (setAttribute n k v s) = localStorage s"
  by (simp add: setAttribute_def)

lemma localStorage_addEventListener [simp]:
  "localStorage (addEventListener t ty h s) = localStorage s"
  by (simp add: addEventListener_def)

lemma localStorage_updateBlock [simp]: "localStorage (updateBlock i f s) = localStorage s"
  by (simp add: updateBlock_def)

lemma localStorage_smoothScrollToElement [simp]:
  "localStorage (smoothScrollToElement el opts s) = localStorage s"
  by (simp add: smoothScrollToElement_def Let_def split: option.splits)

lemma localStorage_setAccessibilityAttributes [simp]:
  "localStorage (setAccessibilityAttributes el attrs s) = localStorage s"
  unfolding setAccessibilityAttributes_def
  by (rule fold_frame) (simp split: prod.splits)

lemma localStorage_setupElements [simp]: "localStorage (setupElements s) = localStorage s"
  by (simp add: setupElements_def Let_def split: option.splits)

lemma localStorage_setupHoverEffects [simp]:
  "localStorage (setupHoverEffects s) = localStorage s"
  unfolding setupHoverEffects_def Let_def
  by (rule fold_frame) simp

lemma localStorage_setupEventListeners [simp]:
  "localStorage (setupEventListeners s) = localStorage s"
  by (simp add: setupEventListeners_def Let_def split: option.splits)

lemma localStorage_determineInitialTheme [simp]:
  "localStorage (determineInitialTheme s) = localStorage s"
  by (simp add: determineInitialTheme_def safeGetStorage_eq applyTheme_no_save_storage
      split: option.splits)

lemma localStorage_setupTheme [simp]: "localStorage (setupTheme s) = localStorage s"
  by (simp add: setupTheme_def)

lemma localStorage_handleSystemThemeChange [simp]:
  "localStorage (handleSystemThemeChange m s) = localStorage s"
  by (simp add: handleSystemThemeChange_def safeGetStorage_eq applyTheme_no_save_storage)

lemma localStorage_animateIntro [simp]: "localStorage (animateIntro s) = localStorage s"
  unfolding animateIntro_def Let_def forEach_indexed_def
  by (rule fold_frame) (simp split: prod.splits)

lemma localStorage_scrollToTop [simp]: "localStorage (scrollToTop s) = localStorage s"
  by (simp add: scrollToTop_def Let_def split: option.splits)

lemma localStorage_toggleScrollButton [simp]:
  "localStorage (toggleScrollButton s) = localStorage s"
  by (simp add: toggleScrollButton_def Let_def split: option.splits)

lemma localStorage_hover [simp]: "localStorage (hover c i s) = localStorage s"
  by (simp add: hover_def)

lemma localStorage_handleSearch:
  "handleSearch s = Inr s' \<Longrightarrow> localStorage s' = localStorage s"
  by (auto simp add: handleSearch_def Let_def split: option.splits if_splits)

lemma localStorage_onDOMContentLoaded [simp]:
  "localStorage (onDOMContentLoaded s) = localStorage s"
  by (simp add: onDOMContentLoaded_def Let_def)

lemma localStorage_init [simp]: "localStorage (init s) = localStorage s"
  by (simp add: init_def)

lemma localStorage_runHandler:
  "localStorage (runHandler h e s) =
     (if h = OnThemeClick then localStorage (toggleTheme s) else localStorage s)"
  by (cases h)
     (auto simp add: preventDefault_def localStorage_handleSearch split: event.splits sum.splits)

subsection \<open>The storage along a run\<close>

lemma storageEvolves_refl [simp]: "storageEvolves a a"
  by (simp add: storageEvolves_def)

lemma storageEvolves_trans:
  "storageEvolves a b \<Longrightarrow> storageEvolves b c \<Longrightarrow> storageEvolves a c"
  unfolding storageEvolves_def
  by (elim conjE exE, intro conjI) (auto simp add: list_all_iff)

lemma storageEvolves_toggleTheme: "storageEvolves (localStorage s) (localStorage (toggleTheme s))"
  using opposite_cases [of "currentTheme (app s)"]
  by (auto simp add: storageEvolves_def toggleTheme_storage themeWrite_def)

lemma storageEvolves_runHandler:
  "storageEvolves (localStorage s) (localStorage (runHandler h e s))"
  by (simp add: localStorage_runHandler storageEvolves_toggleTheme)

lemma storageEvolves_fold:
  "storageEvolves (localStorage s) (localStorage (fold (\<lambda>h. runHandler h e) hs s))"
proof (induction hs arbitrary: s)
  case Nil
  show ?case by simp
next
  case (Cons h hs)
  show ?case
    using storageEvolves_trans [OF storageEvolves_runHandler [of s h e] Cons.IH [of "runHandler h e s"]]
    by simp
qed

lemma storageEvolves_dispatchEvent:
  "storageEvolves (localStorage s) (localStorage (dispatchEvent t e s))"
  using storageEvolves_fold [of "s\<lparr>defaultPrevented := False\<rparr>" e]
  by (simp add: dispatchEvent_def)

lemma storageEvolves_step: "storageEvolves (localStorage s) (localStorage (step i s))"
proof (cases i)
  case (UserScroll y)
  show ?thesis
    using storageEvolves_dispatchEvent [of "s\<lparr>scrollY := y\<rparr>" TWindow Scroll]
    by (simp add: UserScroll)
next
  case (SystemTheme m)
  show ?thesis
    using storageEvolves_dispatchEvent [of "s\<lparr>prefersDark := m\<rparr>" TMediaQuery "Change m"]
    by (simp add: SystemTheme)
qed (simp_all add: storageEvolves_dispatchEvent)

lemma storageEvolves_run: "storageEvolves (localStorage s) (localStorage (run ins s))"
  unfolding run_def
proof (induction ins arbitrary: s)
  case Nil
  show ?case by simp
next
  case (Cons i ins)
  show ?case
    using storageEvolves_trans [OF storageEvolves_step [of s i] Cons.IH [of "step i s"]]
    by simp
qed

lemma choicePersisted_toggleTheme:
  "\<not> readFails s \<Longrightarrow> \<not> writeFails s \<Longrightarrow> choicePersisted (toggleTheme s)"
  using opposite_cases [of "currentTheme (app s)"]
  by (auto simp add: choicePersisted_def storedTheme_def toggleTheme_storage readFails_def
      writeFails_def)

lemma choicePersisted_run: "choicePersisted s \<Longrightarrow> choicePersisted (run ins s)"
  using storageEvolves_run [of s ins]
  by (auto simp add: choicePersisted_def storedTheme_def storageEvolves_def readFails_def
      writeFails_def)

lemma handleSystemThemeChange_ignored:
  "\<not> readFails s \<Longrightarrow> storedTheme s = Some v \<Longrightarrow> v \<noteq> []
     \<Longrightarrow> handleSystemThemeChange m s = s"
  by (simp add: handleSystemThemeChange_def safeGetStorage_eq storedTheme_def falsy_def)

lemma handleSystemThemeChange_applied:
  "readFails s \<or> storedTheme s = None \<or> storedTheme s = Some []
     \<Longrightarrow> themeApplied (if m then ''dark'' else ''light'') (handleSystemThemeChange m s)"
  by (auto simp add: handleSystemThemeChange_def safeGetStorage_eq storedTheme_def falsy_def
      applyTheme_applied)

lemma determineInitialTheme_stored:
  "\<not> readFails s \<Longrightarrow> storedTheme s = Some t \<Longrightarrow> t = ''light'' \<or> t = ''dark''
     \<Longrightarrow> themeApplied t (determineInitialTheme s)"
  by (auto simp add: determineInitialTheme_def safeGetStorage_eq storedTheme_def applyTheme_applied)

lemma determineInitialTheme_system:
  "readFails s \<or> storedTheme s \<notin> {Some ''light'', Some ''dark''}
     \<Longrightarrow> themeApplied (systemTheme s) (determineInitialTheme s)"
  by (auto simp add: determineInitialTheme_def safeGetStorage_eq storedTheme_def systemTheme_def
      applyTheme_applied warn_def split: option.splits)

subsection \<open>The intro animation\<close>

lemma blocks_fold_updateBlock:
  "blocks (fold (\<lambda>(el, index). updateBlock el (g index)) xs s) =
     fold (\<lambda>(el, index) bs. bs[el := g index (bs ! el)]) xs (blocks s)"
  by (induction xs arbitrary: s) (auto simp add: updateBlock_def)

lemma fold_update_indexed:
  "distinct hs \<Longrightarrow> \<forall>h\<in>set hs. h < length bs \<Longrightarrow> length ixs = length hs \<Longrightarrow>
     length (fold (\<lambda>(el, index) bs. bs[el := g index (bs ! el)]) (zip hs ixs) bs) = length bs \<and>
     (\<forall>j<length hs.
        fold (\<lambda>(el, index) bs. bs[el := g index (bs ! el)]) (zip hs ixs) bs ! (hs ! j)
          = g (ixs ! j) (bs ! (hs ! j))) \<and>
     (\<forall>i. i \<notin> set hs \<longrightarrow>
        fold (\<lambda>(el, index) bs. bs[el := g index (bs ! el)]) (zip hs ixs) bs ! i = bs ! i)"
proof (induction hs arbitrary: bs ixs)
  case Nil
  show ?case by simp
next
  case (Cons h hs)
  let ?F = "\<lambda>xs bs. fold (\<lambda>(el, index) bs. bs[el := g index (bs ! el)]) xs bs"
  obtain k ks where ixs: "ixs = k # ks" and lk: "length ks = length hs"
    using Cons.prems(3) by (cases ixs) auto
  let ?bs1 = "bs[h := g k (bs ! h)]"
  have d: "distinct hs" and hn: "h \<notin> set hs" and hl: "h < length bs"
    and al: "\<forall>x\<in>set hs. x < length ?bs1"
    using Cons.prems by auto
  note ih = Cons.IH [OF d al lk]
  have eq: "?F (zip (h # hs) ixs) bs = ?F (zip hs ks) ?bs1"
    by (simp add: ixs)
  show ?case
  proof (intro conjI allI impI)
    show "length (?F (zip (h # hs) ixs) bs) = length bs"
      using ih by (simp add: eq)
  next
    fix j assume j: "j < length (h # hs)"
    show "?F (zip (h # hs) ixs) bs ! ((h # hs) ! j) = g (ixs ! j) (bs ! ((h # hs) ! j))"
    proof (cases j)
      case 0
      then show ?thesis using ih hn hl by (simp add: eq ixs)
    next
      case (Suc j')
      then have j': "j' < length hs" using j by simp
      then have "hs ! j' \<noteq> h" using hn by (metis nth_mem)
      then show ?thesis using ih j' Suc by (simp add: eq ixs)
    qed
  next
    fix i assume "i \<notin> set (h # hs)"
    then show "?F (zip (h # hs) ixs) bs ! i = bs ! i"
      using ih by (simp add: eq)
  qed
qed

lemma querySelectorAll_props:
  "distinct (querySelectorAll sel s) \<and> sorted_wrt (<) (querySelectorAll sel s) \<and>
   (\<forall>h\<in>set (querySelectorAll sel s). h < length (blocks s))"
  by (auto simp add: querySelectorAll_def sorted_wrt_filter strict_sorted_iff[symmetric])

lemma blocks_animateIntro:
  "blocks (animateIntro s) =
     fold (\<lambda>(el, index) bs. bs[el := (\<lambda>b. b\<lparr>classList := classList_add ''fade-in'' (classList b),
                 animationDelay := Some (index * ANIMATION_DELAY)\<rparr>) (bs ! el)])
       (zip (querySelectorAll fadeSelector s) [0..<length (querySelectorAll fadeSelector s)])
       (blocks s)"
  by (simp add: animateIntro_def forEach_indexed_def Let_def fadeSelector_def
      blocks_fold_updateBlock [where g = "\<lambda>index b. b\<lparr>classList := classList_add ''fade-in'' (classList b),
                 animationDelay := Some (index * ANIMATION_DELAY)\<rparr>"])

lemma animateIntro_nth:
  assumes "j < length (querySelectorAll fadeSelector s)"
  shows "blocks (animateIntro s) ! (querySelectorAll fadeSelector s ! j) =
     (blocks s ! (querySelectorAll fadeSelector s ! j))
       \<lparr>classList := classList_add ''fade-in'' (classList (blocks s ! (querySelectorAll fadeSelector s ! j))),
        animationDelay := Some (j * ANIMATION_DELAY)\<rparr>"
proof -
  have p: "distinct (querySelectorAll fadeSelector s)"
    "\<forall>h\<in>set (querySelectorAll fadeSelector s). h < length (blocks s)"
    using querySelectorAll_props [of fadeSelector s] by simp_all
  show ?thesis
    using fold_update_indexed [OF p, where ixs = "[0..<length (querySelectorAll fadeSelector s)]"
        and g = "\<lambda>index b. b\<lparr>classList := classList_add ''fade-in'' (classList b),
                 animationDelay := Some (index * ANIMATION_DELAY)\<rparr>"] assms
    by (simp add: blocks_animateIntro)
qed

lemma animateIntro_other:
  assumes "i \<notin> set (querySelectorAll fadeSelector s)"
  shows "blocks (animateIntro s) ! i = blocks s ! i"
proof -
  have p: "distinct (querySelectorAll fadeSelector s)"
    "\<forall>h\<in>set (querySelectorAll fadeSelector s). h < length (blocks s)"
    using querySelectorAll_props [of fadeSelector s] by simp_all
  show ?thesis
    using fold_update_indexed [OF p, where ixs = "[0..<length (querySelectorAll fadeSelector s)]"
        and g = "\<lambda>index b. b\<lparr>classList := classList_add ''fade-in'' (classList b),
                 animationDelay := Some (index * ANIMATION_DELAY)\<rparr>"] assms
    by (simp add: blocks_animateIntro)
qed

lemma fade_in_added: "''fade-in'' \<in> set (classList_add ''fade-in'' cs)"
  by (simp add: classList_add_def)

subsection \<open>Wiring of the listeners\<close>

lemma listenersFor_addEventListener:
  "listenersFor t ty (addEventListener t' ty' h s) =
     listenersFor t ty s @ (if t' = t \<and> ty' = ty then [h] else [])"
  by (simp add: listenersFor_def addEventListener_def)

lemma listenersFor_nextTimer [simp]:
  "listenersFor t ty (s\<lparr>nextTimer := n\<rparr>) = listenersFor t ty s"
  by (simp add: listenersFor_def)

lemma listenersFor_setupHoverEffects:
  "listenersFor (TElem el) ty (setupHoverEffects s) = listenersFor (TElem el) ty s"
  unfolding setupHoverEffects_def Let_def
  by (rule fold_frame) (simp add: listenersFor_addEventListener)

lemma app_addEventListener [simp]: "app (addEventListener t ty h s) = app s"
  by (simp add: addEventListener_def)

lemma app_wire [simp]:
  "app (case x of None \<Rightarrow> s | Some b \<Rightarrow> addEventListener (T b) ty h s) = app s"
  by (cases x) simp_all

lemma listenersFor_wire:
  "listenersFor t ty (case x of None \<Rightarrow> s | Some b \<Rightarrow> addEventListener (T b) ty' h s) =
     listenersFor t ty s @
       (case x of None \<Rightarrow> [] | Some b \<Rightarrow> if T b = t \<and> ty' = ty then [h] else [])"
  by (cases x) (simp_all add: listenersFor_addEventListener)

lemma listenersFor_setupEventListeners_searchBtn:
  assumes "themeBtn (app s) \<noteq> Some ScrollToSearch" "homeBtn (app s) \<noteq> Some ScrollToSearch"
    "scrollTopBtn (app s) \<noteq> Some ScrollToSearch" "searchForm (app s) \<noteq> Some ScrollToSearch"
  shows "listenersFor (TElem ScrollToSearch) EvClick (setupEventListeners s) =
     listenersFor (TElem ScrollToSearch) EvClick s @
       (if searchBtn (app s) = Some ScrollToSearch \<and> searchSection (app s) \<noteq> None
        then [OnSearchBtnClick] else [])"
  using assms
  by (cases "searchBtn (app s)"; cases "searchSection (app s)"; cases "scrollTopBtn (app s)")
     (simp_all add: setupEventListeners_def Let_def listenersFor_setupHoverEffects
        listenersFor_wire listenersFor_addEventListener split: option.splits)

lemma app_setAccessibilityAttributes [simp]:
  "app (setAccessibilityAttributes el attrs s) = app s"
  unfolding setAccessibilityAttributes_def
  by (rule fold_frame) (simp add: setAttribute_def split: prod.splits)

lemma listeners_setAccessibilityAttributes [simp]:
  "listeners (setAccessibilityAttributes el attrs s) = listeners s"
  unfolding setAccessibilityAttributes_def
  by (rule fold_frame) (simp add: setAttribute_def split: prod.splits)

lemma app_setupElements:
  "app (setupElements s) =
     (app s)\<lparr>themeBtn := getElementById ThemeToggle s,
              homeBtn := getElementById HomeBtn s,
              searchBtn := getElementById ScrollToSearch s,
              searchSection := getElementById SearchSection s,
              scrollTopBtn := getElementById ScrollTopBtn s,
              searchForm := getElementById SearchForm s\<rparr>"
  by (simp add: setupElements_def Let_def split: option.splits)

lemma listenersFor_setupElements [simp]:
  "listenersFor t ty (setupElements s) = listenersFor t ty s"
  by (simp add: listenersFor_def setupElements_def Let_def split: option.splits)

lemma searchBtn_wiring:
  "listenersFor (TElem ScrollToSearch) EvClick (setupEventListeners (setupElements s)) =
     listenersFor (TElem ScrollToSearch) EvClick s @
       (if inDocument s ScrollToSearch \<and> inDocument s SearchSection then [OnSearchBtnClick] else [])"
  by (simp add: listenersFor_setupEventListeners_searchBtn app_setupElements getElementById_def)

subsection \<open>\<open>trim\<close> and the search handler\<close>

lemma dropWhile_all_iff: "(\<forall>x\<in>set (dropWhile P v). P x) \<longleftrightarrow> (\<forall>x\<in>set v. P x)"
  by (induction v) auto

lemma trim_empty_iff: "trim v = [] \<longleftrightarrow> list_all isWhiteSpace v"
  by (simp add: trim_def dropWhile_all_iff list_all_iff)

lemma dropWhile_trim:
  "dropWhile isWhiteSpace v =
     trim v @ rev (takeWhile isWhiteSpace (rev (dropWhile isWhiteSpace v)))"
proof -
  let ?u = "dropWhile isWhiteSpace v"
  have "trim v @ rev (takeWhile isWhiteSpace (rev ?u)) =
      rev (takeWhile isWhiteSpace (rev ?u) @ dropWhile isWhiteSpace (rev ?u))"
    by (simp only: trim_def rev_append)
  also have "\<dots> = rev (rev ?u)"
    by (simp only: takeWhile_dropWhile_id)
  also have "\<dots> = ?u"
    by (simp only: rev_rev_ident)
  finally show ?thesis by (rule sym)
qed

lemma trim_decomposition:
  "v = takeWhile isWhiteSpace v @ trim v @
       rev (takeWhile isWhiteSpace (rev (dropWhile isWhiteSpace v)))"
proof -
  have "v = takeWhile isWhiteSpace v @ dropWhile isWhiteSpace v"
    by (simp only: takeWhile_dropWhile_id)
  also have "\<dots> = takeWhile isWhiteSpace v @
      (trim v @ rev (takeWhile isWhiteSpace (rev (dropWhile isWhiteSpace v))))"
    using dropWhile_trim [of v] by (rule arg_cong)
  finally show ?thesis .
qed

lemma trim_ends:
  assumes "trim v \<noteq> []"
  shows "\<not> isWhiteSpace (hd (trim v)) \<and> \<not> isWhiteSpace (last (trim v))"
proof -
  let ?u = "dropWhile isWhiteSpace v"
  have d: "dropWhile isWhiteSpace (rev ?u) \<noteq> []"
    using assms by (simp only: trim_def rev_is_Nil_conv not_False_eq_True)
  then have "rev ?u \<noteq> []" by (metis dropWhile.simps(1))
  then have u: "?u \<noteq> []" by (simp only: rev_is_Nil_conv not_False_eq_True)
  have "last (trim v) = hd (dropWhile isWhiteSpace (rev ?u))"
    using d by (simp only: trim_def last_rev)
  then have l: "\<not> isWhiteSpace (last (trim v))"
    using hd_dropWhile [OF d] by (simp only: not_False_eq_True)
  have "hd ?u = hd (trim v @ rev (takeWhile isWhiteSpace (rev ?u)))"
    using dropWhile_trim [of v] by (rule arg_cong)
  also have "\<dots> = hd (trim v)" using assms by (rule hd_append2)
  finally have "hd ?u = hd (trim v)" .
  then show ?thesis using hd_dropWhile [OF u] l by (simp only: simp_thms)
qed

lemma handleSearch_input:
  "searchForm (app s) = Some f \<Longrightarrow> searchInput s = Some v \<Longrightarrow>
     handleSearch s =
       Inr (if trim v \<noteq> [] then s\<lparr>console := console s @ [LogSearch (trim v)]\<rparr> else s)"
  by (simp add: handleSearch_def Let_def)

lemma handleSearch_no_input:
  "searchForm (app s) = Some f \<Longrightarrow> searchInput s = None \<Longrightarrow> handleSearch s = Inr s"
  by (simp add: handleSearch_def)

lemma defaultPrevented_OnSubmit:
  "defaultPrevented (runHandler OnSubmit e s) = defaultPrevented s"
  by (cases "searchForm (app s)"; cases "searchInput s")
     (simp_all add: handleSearch_def Let_def warn_def)

subsection \<open>\<open>applyTheme\<close> on a state that already shows the theme\<close>

lemma app_applyTheme: "app (applyTheme t sv s) = (app s)\<lparr>currentTheme := t\<rparr>"
  by (simp add: applyTheme_def setAttribute_def safeSetStorage_def window_localStorage_def localStorage_setItem_def
      warn_def Let_def split: option.splits)

lemma attributes_applyTheme:
  "attributes (applyTheme t sv s) =
     (case themeBtn (app s) of
        None \<Rightarrow> (attributes s)((DocumentElement, ''data-theme'') \<mapsto> Str t)
      | Some b \<Rightarrow> (attributes s)((DocumentElement, ''data-theme'') \<mapsto> Str t,
                                  (Elem b, ''aria-label'') \<mapsto> ariaLabel t))"
  by (simp add: applyTheme_def setAttribute_def safeSetStorage_def window_localStorage_def localStorage_setItem_def
      warn_def ariaLabel_def Let_def split: option.splits)

lemma textContent_applyTheme:
  "textContent (applyTheme t sv s) =
     (case themeBtn (app s) of
        None \<Rightarrow> textContent s
      | Some b \<Rightarrow> (textContent s)(b \<mapsto> caption t))"
  by (simp add: applyTheme_def setAttribute_def safeSetStorage_def window_localStorage_def localStorage_setItem_def
      warn_def caption_def Let_def split: option.splits)

lemma toggleTheme_twice_shown:
  assumes "themeApplied t s"
  shows "app (toggleTheme (toggleTheme s)) = (app s)\<lparr>currentTheme := opposite (opposite t)\<rparr>"
    and "attributes (toggleTheme (toggleTheme s)) =
         (case themeBtn (app s) of
            None \<Rightarrow> (attributes s)((DocumentElement, ''data-theme'') \<mapsto> Str (opposite (opposite t)))
          | Some b \<Rightarrow> (attributes s)((DocumentElement, ''data-theme'') \<mapsto> Str (opposite (opposite t)),
                                      (Elem b, ''aria-label'') \<mapsto> ariaLabel (opposite (opposite t))))"
    and "textContent (toggleTheme (toggleTheme s)) =
         (case themeBtn (app s) of
            None \<Rightarrow> textContent s
          | Some b \<Rightarrow> (textContent s)(b \<mapsto> caption (opposite (opposite t))))"
proof -
  have c: "currentTheme (app s) = t" using assms by (simp add: themeApplied_def)
  show "app (toggleTheme (toggleTheme s)) = (app s)\<lparr>currentTheme := opposite (opposite t)\<rparr>"
    by (simp add: toggleTheme_eq Let_def app_applyTheme c)
  show "attributes (toggleTheme (toggleTheme s)) =
         (case themeBtn (app s) of
            None \<Rightarrow> (attributes s)((DocumentElement, ''data-theme'') \<mapsto> Str (opposite (opposite t)))
          | Some b \<Rightarrow> (attributes s)((DocumentElement, ''data-theme'') \<mapsto> Str (opposite (opposite t)),
                                      (Elem b, ''aria-label'') \<mapsto> ariaLabel (opposite (opposite t))))"
    by (cases "themeBtn (app s)")
       (auto simp add: toggleTheme_eq Let_def app_applyTheme attributes_applyTheme c fun_eq_iff)
  show "textContent (toggleTheme (toggleTheme s)) =
         (case themeBtn (app s) of
            None \<Rightarrow> textContent s
          | Some b \<Rightarrow> (textContent s)(b \<mapsto> caption (opposite (opposite t))))"
    by (cases "themeBtn (app s)")
       (auto simp add: toggleTheme_eq Let_def app_applyTheme textContent_applyTheme c fun_eq_iff)
qed

lemma toggleTheme_twice_restores:
  assumes "themeApplied t s" "t = ''light'' \<or> t = ''dark''"
  shows "app (toggleTheme (toggleTheme s)) = app s \<and>
         attributes (toggleTheme (toggleTheme s)) = attributes s \<and>
         textContent (toggleTheme (toggleTheme s)) = textContent s"
proof -
  have oo: "opposite (opposite t) = t" using assms(2) by (rule opposite_opposite)
  have c: "currentTheme (app s) = t"
    and d: "attributes s (DocumentElement, ''data-theme'') = Some (Str t)"
    using assms(1) by (simp_all add: themeApplied_def)
  have a: "app (toggleTheme (toggleTheme s)) = app s"
    using toggleTheme_twice_shown(1) [OF assms(1)] c by (simp add: oo)
  have b: "attributes (toggleTheme (toggleTheme s)) = attributes s"
  proof (cases "themeBtn (app s)")
    case None
    then show ?thesis
      using toggleTheme_twice_shown(2) [OF assms(1)] d by (auto simp add: oo fun_eq_iff)
  next
    case (Some b)
    then have "attributes s (Elem b, ''aria-label'') = Some (ariaLabel t)"
      using assms(1) by (simp add: themeApplied_def)
    then show ?thesis
      using toggleTheme_twice_shown(2) [OF assms(1)] d Some by (auto simp add: oo fun_eq_iff)
  qed
  have e: "textContent (toggleTheme (toggleTheme s)) = textContent s"
  proof (cases "themeBtn (app s)")
    case None
    then show ?thesis using toggleTheme_twice_shown(3) [OF assms(1)] by simp
  next
    case (Some b)
    then have "textContent s b = Some (caption t)"
      using assms(1) by (simp add: themeApplied_def)
    then show ?thesis
      using toggleTheme_twice_shown(3) [OF assms(1)] Some by (auto simp add: oo fun_eq_iff)
  qed
  show ?thesis using a b e by simp
qed

lemma toggleTheme_twice_items:
  assumes "currentTheme (app s) = t" "t = ''light'' \<or> t = ''dark''"
  shows "items (localStorage (toggleTheme (toggleTheme s))) =
     (if writeFails s then items (localStorage s)
      else (items (localStorage s))(STORAGE_KEYS_THEME \<mapsto> t))"
    and "setItemCalls (localStorage (toggleTheme (toggleTheme s))) =
     setItemCalls (localStorage s) @
       (if accessThrows (localStorage s) then []
        else [(STORAGE_KEYS_THEME, opposite t), (STORAGE_KEYS_THEME, t)])"
proof -
  have c1: "currentTheme (app (toggleTheme s)) = opposite t"
    using toggleTheme_applied [of s] assms(1) by (simp add: themeApplied_def)
  show "items (localStorage (toggleTheme (toggleTheme s))) =
     (if writeFails s then items (localStorage s)
      else (items (localStorage s))(STORAGE_KEYS_THEME \<mapsto> t))"
    using assms by (simp add: toggleTheme_storage c1 opposite_opposite writeFails_def)
  show "setItemCalls (localStorage (toggleTheme (toggleTheme s))) =
     setItemCalls (localStorage s) @
       (if accessThrows (localStorage s) then []
        else [(STORAGE_KEYS_THEME, opposite t), (STORAGE_KEYS_THEME, t)])"
    using assms by (simp add: toggleTheme_storage c1 opposite_opposite)
qed

subsection \<open>The listeners of the media query\<close>

lemma mediaWired_addEventListener:
  "mediaWired (addEventListener t ty h s) =
     (mediaWired s \<and> (t = TMediaQuery \<longrightarrow> h = OnSystemThemeChange))"
  by (simp add: mediaWired_def addEventListener_def)

lemma mediaWired_listeners: "listeners s' = listeners s \<Longrightarrow> mediaWired s' = mediaWired s"
  by (simp add: mediaWired_def)

lemma listeners_warn [simp]: "listeners (warn m s) = listeners s"
  by (simp add: warn_def)

lemma listeners_setAttribute [simp]: "listeners (setAttribute n k v s) = listeners s"
  by (simp add: setAttribute_def)

lemma listeners_updateBlock [simp]: "listeners (updateBlock i f s) = listeners s"
  by (simp add: updateBlock_def)

lemma listeners_applyTheme [simp]: "listeners (applyTheme t sv s) = listeners s"
  by (simp add: applyTheme_def setAttribute_def safeSetStorage_def window_localStorage_def localStorage_setItem_def
      warn_def Let_def split: option.splits)

lemma listeners_toggleTheme [simp]: "listeners (toggleTheme s) = listeners s"
  by (simp add: toggleTheme_eq Let_def)

lemma listeners_determineInitialTheme [simp]: "listeners (determineInitialTheme s) = listeners s"
  by (simp add: determineInitialTheme_def safeGetStorage_eq split: option.splits)

lemma listeners_handleSystemThemeChange [simp]:
  "listeners (handleSystemThemeChange m s) = listeners s"
  by (simp add: handleSystemThemeChange_def safeGetStorage_eq)

lemma listeners_smoothScrollToElement [simp]:
  "listeners (smoothScrollToElement el opts s) = listeners s"
  by (simp add: smoothScrollToElement_def Let_def split: option.splits)

lemma listeners_scrollToTop [simp]: "listeners (scrollToTop s) = listeners s"
  by (simp add: scrollToTop_def Let_def split: option.splits)

lemma listeners_toggleScrollButton [simp]: "listeners (toggleScrollButton s) = listeners s"
  by (simp add: toggleScrollButton_def Let_def split: option.splits)

lemma listeners_hover [simp]: "listeners (hover c i s) = listeners s"
  by (simp add: hover_def)

lemma listeners_handleSearch: "handleSearch s = Inr s' \<Longrightarrow> listeners s' = listeners s"
  by (auto simp add: handleSearch_def Let_def split: option.splits if_splits)

lemma listeners_animateIntro [simp]: "listeners (animateIntro s) = listeners s"
  unfolding animateIntro_def Let_def forEach_indexed_def
  by (rule fold_frame) (simp split: prod.splits)

lemma listeners_setupElements [simp]: "listeners (setupElements s) = listeners s"
  by (simp add: setupElements_def Let_def split: option.splits)

lemma mediaWired_setupHoverEffects [simp]: "mediaWired (setupHoverEffects s) = mediaWired s"
  unfolding setupHoverEffects_def Let_def
  by (rule fold_frame) (simp add: mediaWired_addEventListener)

lemma mediaWired_nextTimer [simp]: "mediaWired (s\<lparr>nextTimer := n\<rparr>) = mediaWired s"
  by (simp add: mediaWired_def)

lemma mediaWired_setupEventListeners [simp]:
  "mediaWired (setupEventListeners s) = mediaWired s"
  by (cases "themeBtn (app s)"; cases "homeBtn (app s)"; cases "searchBtn (app s)";
      cases "searchSection (app s)"; cases "scrollTopBtn (app s)"; cases "searchForm (app s)")
     (simp_all add: setupEventListeners_def Let_def mediaWired_addEventListener)

lemma mediaWired_setupElements [simp]: "mediaWired (setupElements s) = mediaWired s"
  by (simp add: mediaWired_def)

lemma mediaWired_determineInitialTheme [simp]:
  "mediaWired (determineInitialTheme s) = mediaWired s"
  by (simp add: mediaWired_def)

lemma mediaWired_animateIntro [simp]: "mediaWired (animateIntro s) = mediaWired s"
  by (simp add: mediaWired_def)

lemma mediaWired_app_update [simp]: "mediaWired (s\<lparr>app := a\<rparr>) = mediaWired s"
  by (simp add: mediaWired_def)

lemma mediaWired_console_update [simp]: "mediaWired (s\<lparr>console := c\<rparr>) = mediaWired s"
  by (simp add: mediaWired_def)

lemma mediaWired_onDOMContentLoaded: "mediaWired s \<Longrightarrow> mediaWired (onDOMContentLoaded s)"
  by (simp add: onDOMContentLoaded_def Let_def setupTheme_def mediaWired_addEventListener)

lemma mediaWired_init: "mediaWired s \<Longrightarrow> mediaWired (init s)"
  by (simp add: init_def mediaWired_addEventListener warn_def)

lemma mediaWired_runHandler: "mediaWired s \<Longrightarrow> mediaWired (runHandler h e s)"
proof (cases h)
  case OnDOMContentLoaded
  then show "mediaWired s \<Longrightarrow> ?thesis" by (simp add: mediaWired_onDOMContentLoaded)
next
  case OnSubmit
  then show "mediaWired s \<Longrightarrow> ?thesis"
    by (auto simp add: mediaWired_def listeners_handleSearch split: sum.splits)
qed (auto simp add: mediaWired_def preventDefault_def split: event.splits)

lemma mediaWired_fold:
  "mediaWired s \<Longrightarrow> mediaWired (fold (\<lambda>h. runHandler h e) hs s)"
  by (induction hs arbitrary: s) (simp_all add: mediaWired_runHandler)

lemma mediaWired_dispatchEvent: "mediaWired s \<Longrightarrow> mediaWired (dispatchEvent t e s)"
  unfolding dispatchEvent_def
  by (rule mediaWired_fold) (simp add: mediaWired_def)

lemma mediaWired_step: "mediaWired s \<Longrightarrow> mediaWired (step i s)"
proof (cases i)
  case PageLoaded
  then show "mediaWired s \<Longrightarrow> ?thesis"
    using mediaWired_dispatchEvent [of s TDocument DOMContentLoaded]
    by (simp add: mediaWired_def)
next
  case InitCalled
  then show "mediaWired s \<Longrightarrow> ?thesis"
    by (simp add: mediaWired_init)
next
  case (UserScroll y)
  then show "mediaWired s \<Longrightarrow> ?thesis"
    using mediaWired_dispatchEvent [of "s\<lparr>scrollY := y\<rparr>" TWindow Scroll]
    by (simp add: mediaWired_def)
next
  case (TimerFires k)
  then show "mediaWired s \<Longrightarrow> ?thesis"
    by (simp add: mediaWired_def)
next
  case (SystemTheme m)
  then show "mediaWired s \<Longrightarrow> ?thesis"
    using mediaWired_dispatchEvent [of "s\<lparr>prefersDark := m\<rparr>" TMediaQuery "Change m"]
    by (simp add: mediaWired_def)
qed (simp_all add: mediaWired_dispatchEvent)

lemma mediaWired_run: "mediaWired s \<Longrightarrow> mediaWired (run ins s)"
  unfolding run_def
  by (induction ins arbitrary: s) (simp_all add: mediaWired_step)

lemma listenersFor_media:
  "mediaWired s \<Longrightarrow> \<forall>h\<in>set (listenersFor TMediaQuery ty s). h = OnSystemThemeChange"
  by (auto simp add: mediaWired_def listenersFor_def list_all_iff)

lemma fold_change_ignored:
  "\<forall>h\<in>set hs. h = OnSystemThemeChange \<Longrightarrow> \<not> readFails s \<Longrightarrow>
     storedTheme s = Some v \<Longrightarrow> v \<noteq> [] \<Longrightarrow>
     fold (\<lambda>h. runHandler h (Change m)) hs s = s"
  by (induction hs) (simp_all add: handleSystemThemeChange_ignored)

lemma system_change_event_ignored:
  assumes "mediaWired s" "\<not> readFails s" "storedTheme s = Some v" "v \<noteq> []"
  shows "step (SystemTheme m) s =
     (if prefersDark s = m then s else s\<lparr>prefersDark := m, defaultPrevented := False\<rparr>)"
proof -
  let ?s1 = "s\<lparr>prefersDark := m, defaultPrevented := False\<rparr>"
  have l: "listenersFor TMediaQuery EvChange (s\<lparr>prefersDark := m\<rparr>) = listenersFor TMediaQuery EvChange s"
    by (simp add: listenersFor_def)
  have a: "\<forall>h\<in>set (listenersFor TMediaQuery EvChange s). h = OnSystemThemeChange"
    using assms(1) by (rule listenersFor_media)
  have "fold (\<lambda>h. runHandler h (Change m)) (listenersFor TMediaQuery EvChange s) ?s1 = ?s1"
    using a assms(2,3,4)
    by (intro fold_change_ignored [where v = v]) (simp_all add: storedTheme_def readFails_def)
  then show ?thesis
    by (simp add: dispatchEvent_def l)
qed

subsection \<open>What the script only reads\<close>

lemma surroundings_update [simp]:
  "surroundings (s\<lparr>app := x0\<rparr>) = surroundings s"
  "surroundings (s\<lparr>localStorage := x1\<rparr>) = surroundings s"
  "surroundings (s\<lparr>console := x2\<rparr>) = surroundings s"
  "surroundings (s\<lparr>attributes := x3\<rparr>) = surroundings s"
  "surroundings (s\<lparr>textContent := x4\<rparr>) = surroundings s"
  "surroundings (s\<lparr>scrollTopClasses := x5\<rparr>) = surroundings s"
  "surroundings (s\<lparr>blocks := x6\<rparr>) = surroundings s"
  "surroundings (s\<lparr>activeElement := x7\<rparr>) = surroundings s"
  "surroundings (s\<lparr>listeners := x8\<rparr>) = surroundings s"
  "surroundings (s\<lparr>scrollY := x9\<rparr>) = surroundings s"
  "surroundings (s\<lparr>scrollCalls := x10\<rparr>) = surroundings s"
  "surroundings (s\<lparr>timers := x11\<rparr>) = surroundings s"
  "surroundings (s\<lparr>nextTimer := x12\<rparr>) = surroundings s"
  "surroundings (s\<lparr>contentLoaded := x13\<rparr>) = surroundings s"
  "surroundings (s\<lparr>defaultPrevented := x14\<rparr>) = surroundings s"
  by (simp_all add: surroundings_def)

lemma surroundings_warn [simp]: "surroundings (warn m s) = surroundings s"
  by (simp add: warn_def)

lemma surroundings_setAttribute [simp]: "surroundings (setAttribute n k v s) = surroundings s"
  by (simp add: setAttribute_def)

lemma surroundings_addEventListener [simp]: "surroundings (addEventListener t ty h s) = surroundings s"
  by (simp add: addEventListener_def)

lemma surroundings_updateBlock [simp]: "surroundings (updateBlock i f s) = surroundings s"
  by (simp add: updateBlock_def)

lemma surroundings_preventDefault [simp]: "surroundings (preventDefault s) = surroundings s"
  by (simp add: preventDefault_def)

lemma surroundings_smoothScrollToElement [simp]: "surroundings (smoothScrollToElement el opts s) = surroundings s"
  by (simp add: smoothScrollToElement_def Let_def split: option.splits)

lemma surroundings_setAccessibilityAttributes [simp]: "surroundings (setAccessibilityAttributes el attrs s) = surroundings s"
  unfolding setAccessibilityAttributes_def
  by (rule fold_frame) (simp split: prod.splits)

lemma surroundings_setupHoverEffects [simp]: "surroundings (setupHoverEffects s) = surroundings s"
  unfolding setupHoverEffects_def Let_def
  by (rule fold_frame) simp

lemma surroundings_setupEventListeners [simp]: "surroundings (setupEventListeners s) = surroundings s"
  by (simp add: setupEventListeners_def Let_def split: option.splits)

lemma surroundings_animateIntro [simp]: "surroundings (animateIntro s) = surroundings s"
  unfolding animateIntro_def Let_def forEach_indexed_def
  by (rule fold_frame) (simp split: prod.splits)

lemma surroundings_toggleScrollButton [simp]: "surroundings (toggleScrollButton s) = surroundings s"
  by (simp add: toggleScrollButton_def Let_def split: option.splits)

lemma surroundings_hover [simp]: "surroundings (hover c i s) = surroundings s"
  by (simp add: hover_def)

lemma surroundings_init [simp]: "surroundings (init s) = surroundings s"
  by (simp add: init_def)

lemma surroundings_applyTheme [simp]: "surroundings (applyTheme t sv s) = surroundings s"
  by (simp add: applyTheme_def safeSetStorage_def window_localStorage_def localStorage_setItem_def
      Let_def split: option.splits)

lemma surroundings_determineInitialTheme [simp]:
  "surroundings (determineInitialTheme s) = surroundings s"
  by (simp add: determineInitialTheme_def safeGetStorage_eq split: option.splits)

lemma surroundings_setupTheme [simp]: "surroundings (setupTheme s) = surroundings s"
  by (simp add: setupTheme_def)

lemma surroundings_setupElements [simp]: "surroundings (setupElements s) = surroundings s"
  by (simp add: setupElements_def Let_def split: option.splits)

lemma surroundings_onDOMContentLoaded [simp]:
  "surroundings (onDOMContentLoaded s) = surroundings s"
  by (simp add: onDOMContentLoaded_def Let_def)

lemma surroundings_constructor [simp]: "surroundings (constructor s) = surroundings s"
  by (simp add: constructor_def)

lemma surroundings_fields:
  "surroundings s' = surroundings s \<Longrightarrow>
     inDocument s' = inDocument s \<and> searchInput s' = searchInput s \<and> prefersDark s' = prefersDark s"
  by (simp add: surroundings_def)

subsection \<open>The focus\<close>

lemma focusView_update [simp]:
  "focusView (s\<lparr>localStorage := x0\<rparr>) = focusView s"
  "focusView (s\<lparr>console := x1\<rparr>) = focusView s"
  "focusView (s\<lparr>inDocument := x2\<rparr>) = focusView s"
  "focusView (s\<lparr>attributes := x3\<rparr>) = focusView s"
  "focusView (s\<lparr>textContent := x4\<rparr>) = focusView s"
  "focusView (s\<lparr>scrollTopClasses := x5\<rparr>) = focusView s"
  "focusView (s\<lparr>blocks := x6\<rparr>) = focusView s"
  "focusView (s\<lparr>searchInput := x7\<rparr>) = focusView s"
  "focusView (s\<lparr>listeners := x8\<rparr>) = focusView s"
  "focusView (s\<lparr>prefersDark := x9\<rparr>) = focusView s"
  "focusView (s\<lparr>scrollY := x10\<rparr>) = focusView s"
  "focusView (s\<lparr>scrollCalls := x11\<rparr>) = focusView s"
  "focusView (s\<lparr>timers := x12\<rparr>) = focusView s"
  "focusView (s\<lparr>nextTimer := x13\<rparr>) = focusView s"
  "focusView (s\<lparr>contentLoaded := x14\<rparr>) = focusView s"
  "focusView (s\<lparr>defaultPrevented := x15\<rparr>) = focusView s"
  by (simp_all add: focusView_def)

lemma focusView_app_update [simp]:
  "focusView (s\<lparr>app := (app s)\<lparr>currentTheme := t\<rparr>\<rparr>) = focusView s"
  "focusView (s\<lparr>app := (app s)\<lparr>isInitialized := b\<rparr>\<rparr>) = focusView s"
  by (simp_all add: focusView_def)

lemma focusView_warn [simp]: "focusView (warn m s) = focusView s"
  by (simp add: warn_def)

lemma focusView_setAttribute [simp]: "focusView (setAttribute n k v s) = focusView s"
  by (simp add: setAttribute_def)

lemma focusView_addEventListener [simp]: "focusView (addEventListener t ty h s) = focusView s"
  by (simp add: addEventListener_def)

lemma focusView_updateBlock [simp]: "focusView (updateBlock i f s) = focusView s"
  by (simp add: updateBlock_def)

lemma focusView_preventDefault [simp]: "focusView (preventDefault s) = focusView s"
  by (simp add: preventDefault_def)

lemma focusView_smoothScrollToElement [simp]: "focusView (smoothScrollToElement el opts s) = focusView s"
  by (simp add: smoothScrollToElement_def Let_def split: option.splits)

lemma focusView_setAccessibilityAttributes [simp]: "focusView (setAccessibilityAttributes el attrs s) = focusView s"
  unfolding setAccessibilityAttributes_def
  by (rule fold_frame) (simp split: prod.splits)

lemma focusView_setupHoverEffects [simp]: "focusView (setupHoverEffects s) = focusView s"
  unfolding setupHoverEffects_def Let_def
  by (rule fold_frame) simp

lemma focusView_setupEventListeners [simp]: "focusView (setupEventListeners s) = focusView s"
  by (simp add: setupEventListeners_def Let_def split: option.splits)

lemma focusView_animateIntro [simp]: "focusView (animateIntro s) = focusView s"
  unfolding animateIntro_def Let_def forEach_indexed_def
  by (rule fold_frame) (simp split: prod.splits)

lemma focusView_toggleScrollButton [simp]: "focusView (toggleScrollButton s) = focusView s"
  by (simp add: toggleScrollButton_def Let_def split: option.splits)

lemma focusView_hover [simp]: "focusView (hover c i s) = focusView s"
  by (simp add: hover_def)

lemma focusView_init [simp]: "focusView (init s) = focusView s"
  by (simp add: init_def)

lemma focusView_applyTheme [simp]: "focusView (applyTheme t sv s) = focusView s"
  by (simp add: applyTheme_def safeSetStorage_def window_localStorage_def localStorage_setItem_def
      Let_def split: option.splits)

lemma focusView_determineInitialTheme [simp]:
  "focusView (determineInitialTheme s) = focusView s"
  by (simp add: determineInitialTheme_def safeGetStorage_eq split: option.splits)

lemma focusView_setupTheme [simp]: "focusView (setupTheme s) = focusView s"
  by (simp add: setupTheme_def)

lemma focusView_handleSystemThemeChange [simp]:
  "focusView (handleSystemThemeChange m s) = focusView s"
  by (simp add: handleSystemThemeChange_def safeGetStorage_eq)

lemma focusView_toggleTheme [simp]: "focusView (toggleTheme s) = focusView s"
  by (simp add: toggleTheme_eq Let_def)

lemma focusView_handleSearch: "handleSearch s = Inr s' \<Longrightarrow> focusView s' = focusView s"
  by (auto simp add: handleSearch_def Let_def split: option.splits if_splits)

lemma activeElement_setAccessibilityAttributes [simp]:
  "activeElement (setAccessibilityAttributes el attrs s) = activeElement s"
  using focusView_setAccessibilityAttributes [of el attrs s] by (simp add: focusView_def)

lemma focusView_setupElements:
  "focusView (setupElements s) = (activeElement s, getElementById ScrollTopBtn s)"
  by (simp add: setupElements_def Let_def focusView_def split: option.splits)

lemma focusView_onDOMContentLoaded:
  "focusView (onDOMContentLoaded s) = (activeElement s, getElementById ScrollTopBtn s)"
  by (simp add: onDOMContentLoaded_def Let_def focusView_setupElements)

lemma focusView_scrollToTop:
  "focusView (scrollToTop s) =
     ((case scrollTopBtn (app s) of None \<Rightarrow> activeElement s | Some b \<Rightarrow> Some b),
      scrollTopBtn (app s))"
  by (simp add: scrollToTop_def Let_def focusView_def split: option.splits)

lemma focusKept_same: "scrollTopResolved s \<Longrightarrow> focusView s' = focusView s \<Longrightarrow> focusKept s s'"
  by (simp add: focusKept_def focusView_def scrollTopResolved_def)

lemma focusKept_trans: "focusKept a b \<Longrightarrow> focusKept b c \<Longrightarrow> focusKept a c"
  by (auto simp add: focusKept_def)

lemma focusKept_scrollToTop: "scrollTopResolved s \<Longrightarrow> focusKept s (scrollToTop s)"
  using focusView_scrollToTop [of s]
  by (auto simp add: focusKept_def focusView_def scrollTopResolved_def)

lemma focusKept_onDOMContentLoaded: "focusKept s (onDOMContentLoaded s)"
  using focusView_onDOMContentLoaded [of s]
  by (auto simp add: focusKept_def focusView_def scrollTopResolved_def getElementById_def)

lemma scrollTopResolved_update [simp]:
  "scrollTopResolved (s\<lparr>defaultPrevented := b\<rparr>) = scrollTopResolved s"
  "scrollTopResolved (s\<lparr>scrollY := y\<rparr>) = scrollTopResolved s"
  "scrollTopResolved (s\<lparr>prefersDark := m\<rparr>) = scrollTopResolved s"
  "scrollTopResolved (s\<lparr>timers := ts\<rparr>) = scrollTopResolved s"
  by (simp_all add: scrollTopResolved_def)

lemma focusKept_runHandler: "scrollTopResolved s \<Longrightarrow> focusKept s (runHandler h e s)"
proof (cases h)
  case OnDOMContentLoaded
  then show ?thesis by (simp add: focusKept_onDOMContentLoaded)
next
  case OnHomeClick
  then show "scrollTopResolved s \<Longrightarrow> ?thesis" by (simp add: focusKept_scrollToTop)
next
  case OnScrollTopClick
  then show "scrollTopResolved s \<Longrightarrow> ?thesis" by (simp add: focusKept_scrollToTop)
next
  case OnScrollTopKeydown
  assume r: "scrollTopResolved s"
  have p: "focusKept s (scrollToTop (preventDefault s))"
    using focusKept_scrollToTop [of "preventDefault s"] r
    by (simp add: focusKept_def preventDefault_def scrollTopResolved_def)
  show ?thesis
    using r p by (cases e) (simp_all add: OnScrollTopKeydown focusKept_same)
next
  case OnSubmit
  assume r: "scrollTopResolved s"
  show ?thesis
    using r by (cases "handleSearch s")
      (simp_all add: OnSubmit focusKept_same focusView_handleSearch)
next
  case OnSystemThemeChange
  assume r: "scrollTopResolved s"
  show ?thesis
    using r by (cases e) (simp_all add: OnSystemThemeChange focusKept_same)
qed (simp_all add: focusKept_same)

lemma focusKept_fold:
  "scrollTopResolved s \<Longrightarrow> focusKept s (fold (\<lambda>h. runHandler h e) hs s)"
proof (induction hs arbitrary: s)
  case Nil
  then show ?case by (simp add: focusKept_same)
next
  case (Cons h hs)
  have a: "focusKept s (runHandler h e s)"
    using Cons.prems by (rule focusKept_runHandler)
  then have "scrollTopResolved (runHandler h e s)" by (simp add: focusKept_def)
  then have "focusKept (runHandler h e s) (fold (\<lambda>h. runHandler h e) hs (runHandler h e s))"
    by (rule Cons.IH)
  then show ?case using a by (auto intro: focusKept_trans)
qed

lemma focusKept_dispatchEvent: "scrollTopResolved s \<Longrightarrow> focusKept s (dispatchEvent t e s)"
  using focusKept_fold [of "s\<lparr>defaultPrevented := False\<rparr>" e "listenersFor t (evtype_of e) s"]
  by (simp add: dispatchEvent_def focusKept_def)

lemma focusKept_step: "scrollTopResolved s \<Longrightarrow> focusKept s (step i s)"
proof (cases i)
  case PageLoaded
  then show "scrollTopResolved s \<Longrightarrow> ?thesis"
    using focusKept_dispatchEvent [of s TDocument DOMContentLoaded]
    by (simp add: focusKept_def scrollTopResolved_def)
next
  case InitCalled
  then show "scrollTopResolved s \<Longrightarrow> ?thesis" by (simp add: focusKept_same)
next
  case (UserScroll y)
  then show "scrollTopResolved s \<Longrightarrow> ?thesis"
    using focusKept_dispatchEvent [of "s\<lparr>scrollY := y\<rparr>" TWindow Scroll]
    by (simp add: focusKept_def)
next
  case (TimerFires k)
  then show "scrollTopResolved s \<Longrightarrow> ?thesis" by (simp add: focusKept_same)
next
  case (SystemTheme m)
  then show "scrollTopResolved s \<Longrightarrow> ?thesis"
    using focusKept_dispatchEvent [of "s\<lparr>prefersDark := m\<rparr>" TMediaQuery "Change m"]
    by (simp add: focusKept_def)
qed (simp_all add: focusKept_dispatchEvent focusKept_same)

lemma focusKept_run: "scrollTopResolved s \<Longrightarrow> focusKept s (run ins s)"
  unfolding run_def
proof (induction ins arbitrary: s)
  case Nil
  then show ?case by (simp add: focusKept_same)
next
  case (Cons i ins)
  have a: "focusKept s (step i s)" using Cons.prems by (rule focusKept_step)
  then have "scrollTopResolved (step i s)" by (simp add: focusKept_def)
  then have "focusKept (step i s) (fold step ins (step i s))" by (rule Cons.IH)
  then show ?case using a by (auto intro: focusKept_trans)
qed

subsection \<open>What the setup registers\<close>

lemma listenersFor_listeners:
  "listeners s' = listeners s \<Longrightarrow> listenersFor t ty s' = listenersFor t ty s"
  by (simp add: listenersFor_def)

lemma listenersFor_setupEventListeners_elem:
  "listenersFor (TElem x) ty (setupEventListeners s) =
     listenersFor (TElem x) ty s @ wiringFor x ty s"
  by (cases "themeBtn (app s)"; cases "homeBtn (app s)"; cases "searchBtn (app s)";
      cases "searchSection (app s)"; cases "scrollTopBtn (app s)"; cases "searchForm (app s)")
     (simp_all add: setupEventListeners_def Let_def wiringFor_def listenersFor_setupHoverEffects
        listenersFor_addEventListener)

lemma listenersFor_setupHoverEffects_media:
  "listenersFor TMediaQuery ty (setupHoverEffects s) = listenersFor TMediaQuery ty s"
  unfolding setupHoverEffects_def Let_def
  by (rule fold_frame) (simp add: listenersFor_addEventListener)

lemma listenersFor_setupEventListeners_media:
  "listenersFor TMediaQuery ty (setupEventListeners s) = listenersFor TMediaQuery ty s"
  by (cases "themeBtn (app s)"; cases "homeBtn (app s)"; cases "searchBtn (app s)";
      cases "searchSection (app s)"; cases "scrollTopBtn (app s)"; cases "searchForm (app s)")
     (simp_all add: setupEventListeners_def Let_def listenersFor_setupHoverEffects_media
        listenersFor_addEventListener)

lemma listenersFor_update [simp]:
  "listenersFor t ty (s\<lparr>app := a\<rparr>) = listenersFor t ty s"
  "listenersFor t ty (s\<lparr>console := c\<rparr>) = listenersFor t ty s"
  "listenersFor t ty (s\<lparr>contentLoaded := b\<rparr>) = listenersFor t ty s"
  "listenersFor t ty (s\<lparr>defaultPrevented := b\<rparr>) = listenersFor t ty s"
  "listenersFor t ty (s\<lparr>prefersDark := b\<rparr>) = listenersFor t ty s"
  by (simp_all add: listenersFor_def)

lemma listenersFor_onDOMContentLoaded:
  "listenersFor t ty (onDOMContentLoaded s) =
     listenersFor t ty (setupEventListeners (setupElements s)) @
       (if TMediaQuery = t \<and> EvChange = ty then [OnSystemThemeChange] else [])"
  by (simp add: onDOMContentLoaded_def Let_def setupTheme_def listenersFor_addEventListener
      listenersFor_listeners [of "animateIntro s'" s' for s']
      listenersFor_listeners [of "determineInitialTheme s'" s' for s'])

lemma app_setupEventListeners [simp]: "app (setupEventListeners s) = app s"
proof -
  have h: "\<And>s. app (setupHoverEffects s) = app s"
    unfolding setupHoverEffects_def Let_def
    by (rule fold_frame) simp
  show ?thesis
    by (simp add: setupEventListeners_def Let_def h split: option.splits)
qed

lemma app_animateIntro [simp]: "app (animateIntro s) = app s"
  unfolding animateIntro_def Let_def forEach_indexed_def
  by (rule fold_frame) (simp add: updateBlock_def split: prod.splits)

lemma app_determineInitialTheme:
  "app (determineInitialTheme s) = (app s)\<lparr>currentTheme := currentTheme (app (determineInitialTheme s))\<rparr>"
  by (simp add: determineInitialTheme_def safeGetStorage_eq app_applyTheme warn_def
      split: option.splits)

lemma handles_onDOMContentLoaded:
  "themeBtn (app (onDOMContentLoaded s)) = getElementById ThemeToggle s \<and>
   homeBtn (app (onDOMContentLoaded s)) = getElementById HomeBtn s \<and>
   searchBtn (app (onDOMContentLoaded s)) = getElementById ScrollToSearch s \<and>
   searchSection (app (onDOMContentLoaded s)) = getElementById SearchSection s \<and>
   scrollTopBtn (app (onDOMContentLoaded s)) = getElementById ScrollTopBtn s \<and>
   searchForm (app (onDOMContentLoaded s)) = getElementById SearchForm s"
proof -
  let ?s2 = "setupEventListeners (setupElements s)"
  have a: "app (onDOMContentLoaded s) =
      (app (determineInitialTheme ?s2))\<lparr>isInitialized := True\<rparr>"
    by (simp add: onDOMContentLoaded_def Let_def setupTheme_def)
  show ?thesis
    unfolding a
    by (subst app_determineInitialTheme, simp add: app_setupElements)+
qed

subsection \<open>The theme through the setup\<close>

lemma themeApplied_addEventListener [simp]:
  "themeApplied t (addEventListener tg ty h s) = themeApplied t s"
  by (simp add: themeApplied_def addEventListener_def split: option.splits)

lemma themeApplied_updateBlock [simp]: "themeApplied t (updateBlock i f s) = themeApplied t s"
  by (simp add: themeApplied_def updateBlock_def split: option.splits)

lemma themeApplied_animateIntro [simp]: "themeApplied t (animateIntro s) = themeApplied t s"
  unfolding animateIntro_def Let_def forEach_indexed_def
  by (rule fold_frame) (simp split: prod.splits)

lemma themeApplied_initialized [simp]:
  "themeApplied t (s\<lparr>app := (app s)\<lparr>isInitialized := b\<rparr>\<rparr>) = themeApplied t s"
  by (simp add: themeApplied_def split: option.splits)

lemma themeApplied_update [simp]:
  "themeApplied t (s\<lparr>contentLoaded := b\<rparr>) = themeApplied t s"
  "themeApplied t (s\<lparr>defaultPrevented := b\<rparr>) = themeApplied t s"
  by (simp_all add: themeApplied_def split: option.splits)

lemma themeApplied_onDOMContentLoaded:
  "themeApplied t (onDOMContentLoaded s) =
     themeApplied t (determineInitialTheme (setupEventListeners (setupElements s)))"
  by (simp add: onDOMContentLoaded_def Let_def setupTheme_def
      del: app_animateIntro app_addEventListener)

lemma systemTheme_surroundings:
  "surroundings s' = surroundings s \<Longrightarrow> systemTheme s' = systemTheme s"
  by (simp add: surroundings_def systemTheme_def)

lemma storage_views:
  "localStorage s' = localStorage s \<Longrightarrow>
     readFails s' = readFails s \<and> writeFails s' = writeFails s \<and> storedTheme s' = storedTheme s"
  by (simp add: readFails_def writeFails_def storedTheme_def)

lemma onDOMContentLoaded_stored:
  assumes "\<not> readFails s" "storedTheme s = Some t" "t = ''light'' \<or> t = ''dark''"
  shows "themeApplied t (onDOMContentLoaded s)"
proof -
  let ?s2 = "setupEventListeners (setupElements s)"
  have "localStorage ?s2 = localStorage s" by simp
  from storage_views [OF this] assms
  have "\<not> readFails ?s2" "storedTheme ?s2 = Some t" by simp_all
  then have "themeApplied t (determineInitialTheme ?s2)"
    using assms(3) by (rule determineInitialTheme_stored)
  then show ?thesis by (simp add: themeApplied_onDOMContentLoaded)
qed

lemma onDOMContentLoaded_system:
  assumes "readFails s \<or> storedTheme s \<notin> {Some ''light'', Some ''dark''}"
  shows "themeApplied (systemTheme s) (onDOMContentLoaded s)"
proof -
  let ?s2 = "setupEventListeners (setupElements s)"
  have "localStorage ?s2 = localStorage s" by simp
  from storage_views [OF this] assms
  have a: "readFails ?s2 \<or> storedTheme ?s2 \<notin> {Some ''light'', Some ''dark''}" by simp
  have "surroundings ?s2 = surroundings s" by simp
  then have b: "systemTheme ?s2 = systemTheme s" by (rule systemTheme_surroundings)
  have "themeApplied (systemTheme ?s2) (determineInitialTheme ?s2)"
    using a by (rule determineInitialTheme_system)
  then show ?thesis by (simp add: themeApplied_onDOMContentLoaded b)
qed

subsection \<open>Loading a page\<close>

lemma loadedPage_fresh:
  assumes "fresh p"
  shows "loadedPage p =
     (onDOMContentLoaded ((constructor p)\<lparr>defaultPrevented := False\<rparr>))\<lparr>contentLoaded := True\<rparr>"
  using assms
  by (simp add: loadedPage_def fresh_def constructor_def init_def addEventListener_def
      dispatchEvent_def listenersFor_def)

lemma localStorage_constructor [simp]: "localStorage (constructor s) = localStorage s"
  by (simp add: constructor_def)

lemma loadedPage_localStorage: "fresh p \<Longrightarrow> localStorage (loadedPage p) = localStorage p"
  by (simp add: loadedPage_fresh)

lemma loadedPage_surroundings: "fresh p \<Longrightarrow> surroundings (loadedPage p) = surroundings p"
  by (simp add: loadedPage_fresh)

lemma loadedPage_inDocument: "fresh p \<Longrightarrow> inDocument (loadedPage p) = inDocument p"
  using surroundings_fields [OF loadedPage_surroundings] by blast

lemma loadedPage_searchInput: "fresh p \<Longrightarrow> searchInput (loadedPage p) = searchInput p"
  using surroundings_fields [OF loadedPage_surroundings] by blast

lemma loadedPage_prefersDark: "fresh p \<Longrightarrow> prefersDark (loadedPage p) = prefersDark p"
  using surroundings_fields [OF loadedPage_surroundings] by blast

lemma getElementById_surroundings:
  "surroundings s' = surroundings s \<Longrightarrow> getElementById x s' = getElementById x s"
  by (simp add: surroundings_def getElementById_def)

lemma loadedPage_handles:
  assumes "fresh p"
  shows "themeBtn (app (loadedPage p)) = getElementById ThemeToggle p \<and>
   homeBtn (app (loadedPage p)) = getElementById HomeBtn p \<and>
   searchBtn (app (loadedPage p)) = getElementById ScrollToSearch p \<and>
   searchSection (app (loadedPage p)) = getElementById SearchSection p \<and>
   scrollTopBtn (app (loadedPage p)) = getElementById ScrollTopBtn p \<and>
   searchForm (app (loadedPage p)) = getElementById SearchForm p"
proof -
  let ?b = "(constructor p)\<lparr>defaultPrevented := False\<rparr>"
  have "surroundings ?b = surroundings p" by simp
  then have g: "\<And>x. getElementById x ?b = getElementById x p"
    by (rule getElementById_surroundings)
  show ?thesis
    using handles_onDOMContentLoaded [of ?b]
    by (simp add: loadedPage_fresh [OF assms] g)
qed

lemma listenersFor_booted:
  assumes "fresh p"
  shows "listenersFor (TElem x) ty (constructor p) = []"
    and "listenersFor TMediaQuery ty (constructor p) = []"
  using assms
  by (simp_all add: fresh_def constructor_def init_def addEventListener_def listenersFor_def)

lemma loadedPage_listenersFor_elem:
  assumes "fresh p"
  shows "listenersFor (TElem x) ty (loadedPage p) =
     wiringFor x ty (setupElements ((constructor p)\<lparr>defaultPrevented := False\<rparr>))"
  by (simp add: loadedPage_fresh [OF assms] listenersFor_onDOMContentLoaded
      listenersFor_setupEventListeners_elem listenersFor_booted [OF assms])

lemma loadedPage_listenersFor_media:
  assumes "fresh p"
  shows "listenersFor TMediaQuery EvChange (loadedPage p) = [OnSystemThemeChange]"
  by (simp add: loadedPage_fresh [OF assms] listenersFor_onDOMContentLoaded
      listenersFor_setupEventListeners_media listenersFor_booted [OF assms])

lemma wiringFor_resolved:
  "wiringFor ThemeToggle EvClick (setupElements s) =
     (if inDocument s ThemeToggle then [OnThemeClick] else [])"
  "wiringFor HomeBtn EvClick (setupElements s) =
     (if inDocument s HomeBtn then [OnHomeClick] else [])"
  "wiringFor ScrollTopBtn EvClick (setupElements s) =
     (if inDocument s ScrollTopBtn then [OnScrollTopClick] else [])"
  "wiringFor ScrollTopBtn EvKeydown (setupElements s) =
     (if inDocument s ScrollTopBtn then [OnScrollTopKeydown] else [])"
  "wiringFor SearchForm EvSubmit (setupElements s) =
     (if inDocument s SearchForm then [OnSubmit] else [])"
  by (simp_all add: wiringFor_def app_setupElements getElementById_def)

lemma inDocument_booted [simp]:
  "inDocument ((constructor p)\<lparr>defaultPrevented := False\<rparr>) = inDocument p"
  by (simp add: constructor_def init_def warn_def addEventListener_def)

lemma loadedPage_wiring:
  assumes "fresh p"
  shows "listenersFor (TElem ThemeToggle) EvClick (loadedPage p) =
       (if inDocument p ThemeToggle then [OnThemeClick] else [])"
    and "listenersFor (TElem HomeBtn) EvClick (loadedPage p) =
       (if inDocument p HomeBtn then [OnHomeClick] else [])"
    and "listenersFor (TElem ScrollTopBtn) EvClick (loadedPage p) =
       (if inDocument p ScrollTopBtn then [OnScrollTopClick] else [])"
    and "listenersFor (TElem ScrollTopBtn) EvKeydown (loadedPage p) =
       (if inDocument p ScrollTopBtn then [OnScrollTopKeydown] else [])"
    and "listenersFor (TElem SearchForm) EvSubmit (loadedPage p) =
       (if inDocument p SearchForm then [OnSubmit] else [])"
  by (simp_all add: loadedPage_listenersFor_elem [OF assms] wiringFor_resolved)

lemma dispatch_single:
  "listenersFor t (evtype_of e) s = [h] \<Longrightarrow>
     dispatchEvent t e s = runHandler h e (s\<lparr>defaultPrevented := False\<rparr>)"
  by (simp add: dispatchEvent_def)

lemma dispatch_none:
  "listenersFor t (evtype_of e) s = [] \<Longrightarrow> dispatchEvent t e s = s\<lparr>defaultPrevented := False\<rparr>"
  by (simp add: dispatchEvent_def)

lemma loadedPage_click_theme:
  assumes "fresh p"
  shows "step (UserClick ThemeToggle) (loadedPage p) =
     (if inDocument p ThemeToggle then toggleTheme ((loadedPage p)\<lparr>defaultPrevented := False\<rparr>)
      else loadedPage p)"
  by (simp add: loadedPage_inDocument [OF assms] dispatch_single loadedPage_wiring [OF assms])

lemma loadedPage_click_home:
  assumes "fresh p"
  shows "step (UserClick HomeBtn) (loadedPage p) =
     (if inDocument p HomeBtn then scrollToTop ((loadedPage p)\<lparr>defaultPrevented := False\<rparr>)
      else loadedPage p)"
  by (simp add: loadedPage_inDocument [OF assms] dispatch_single loadedPage_wiring [OF assms])

lemma loadedPage_click_scrollTop:
  assumes "fresh p"
  shows "step (UserClick ScrollTopBtn) (loadedPage p) =
     (if inDocument p ScrollTopBtn then scrollToTop ((loadedPage p)\<lparr>defaultPrevented := False\<rparr>)
      else loadedPage p)"
  by (simp add: loadedPage_inDocument [OF assms] dispatch_single loadedPage_wiring [OF assms])

lemma loadedPage_keydown_scrollTop:
  assumes "fresh p"
  shows "step (UserKeydown ScrollTopBtn key) (loadedPage p) =
     (if inDocument p ScrollTopBtn
      then (if key = ''Enter'' \<or> key = '' ''
            then scrollToTop (preventDefault ((loadedPage p)\<lparr>defaultPrevented := False\<rparr>))
            else (loadedPage p)\<lparr>defaultPrevented := False\<rparr>)
      else loadedPage p)"
  by (simp add: loadedPage_inDocument [OF assms] dispatch_single loadedPage_wiring [OF assms])

lemma loadedPage_submit:
  assumes "fresh p"
  shows "step UserSubmit (loadedPage p) =
     (if inDocument p SearchForm
      then runHandler OnSubmit Submit ((loadedPage p)\<lparr>defaultPrevented := False\<rparr>)
      else loadedPage p)"
  by (simp add: loadedPage_inDocument [OF assms] dispatch_single loadedPage_wiring [OF assms])

lemma loadedPage_system_change:
  assumes "fresh p"
  shows "step (SystemTheme m) (loadedPage p) =
     (if prefersDark p = m then loadedPage p
      else handleSystemThemeChange m ((loadedPage p)\<lparr>prefersDark := m, defaultPrevented := False\<rparr>))"
  by (simp add: loadedPage_prefersDark [OF assms] dispatch_single
      loadedPage_listenersFor_media [OF assms])

lemma loadedPage_stored:
  assumes "fresh p" "\<not> readFails p" "storedTheme p = Some t" "t = ''light'' \<or> t = ''dark''"
  shows "themeApplied t (loadedPage p)"
proof -
  let ?b = "(constructor p)\<lparr>defaultPrevented := False\<rparr>"
  have "localStorage ?b = localStorage p" by simp
  from storage_views [OF this] assms(2,3)
  have "\<not> readFails ?b" "storedTheme ?b = Some t" by simp_all
  then have "themeApplied t (onDOMContentLoaded ?b)"
    using assms(4) by (rule onDOMContentLoaded_stored)
  then show ?thesis by (simp add: loadedPage_fresh [OF assms(1)])
qed

lemma loadedPage_system:
  assumes "fresh p" "readFails p \<or> storedTheme p \<notin> {Some ''light'', Some ''dark''}"
  shows "themeApplied (systemTheme p) (loadedPage p)"
proof -
  let ?b = "(constructor p)\<lparr>defaultPrevented := False\<rparr>"
  have "localStorage ?b = localStorage p" by simp
  from storage_views [OF this] assms(2)
  have a: "readFails ?b \<or> storedTheme ?b \<notin> {Some ''light'', Some ''dark''}" by simp
  have "surroundings ?b = surroundings p" by simp
  then have b: "systemTheme ?b = systemTheme p" by (rule systemTheme_surroundings)
  have "themeApplied (systemTheme ?b) (onDOMContentLoaded ?b)"
    using a by (rule onDOMContentLoaded_system)
  then show ?thesis by (simp add: loadedPage_fresh [OF assms(1)] b)
qed

subsection \<open>The console of a toggle\<close>

lemma console_applyTheme:
  "console (applyTheme t sv s) =
     console s @ (if sv \<and> writeFails s then [WarnStorageSetFailed] else [])"
  by (simp add: applyTheme_def setAttribute_def safeSetStorage_def window_localStorage_def
      localStorage_setItem_def warn_def writeFails_def Let_def split: option.splits)

lemma console_toggleTheme:
  "console (toggleTheme s) =
     console s @ (if writeFails s then [WarnStorageSetFailed] else []) @
       [LogThemeSwitched (opposite (currentTheme (app s)) = ''dark'')]"
  by (simp add: toggleTheme_eq Let_def console_applyTheme)

lemma writeFails_toggleTheme [simp]: "writeFails (toggleTheme s) = writeFails s"
  by (simp add: writeFails_def toggleTheme_storage)

lemma console_toggleTheme_twice:
  assumes "currentTheme (app s) = t" "t = ''light'' \<or> t = ''dark''"
  shows "console (toggleTheme (toggleTheme s)) =
     console s @ (if writeFails s then [WarnStorageSetFailed] else []) @
       [LogThemeSwitched (opposite t = ''dark'')] @
       (if writeFails s then [WarnStorageSetFailed] else []) @
       [LogThemeSwitched (t = ''dark'')]"
proof -
  have c1: "currentTheme (app (toggleTheme s)) = opposite t"
    using toggleTheme_applied [of s] assms(1) by (simp add: themeApplied_def)
  show ?thesis
    using assms by (simp add: console_toggleTheme c1 opposite_opposite)
qed

section \<open>The claims\<close>

text \<open>
  Claim C1. For every page initialization: if the value stored under the theme key is
  "light" or "dark" (and the read succeeds), \<open>determineInitialTheme\<close> applies exactly that
  value; otherwise (key absent, storage read fails, or value invalid) it applies the theme
  matching the system colour-scheme preference at load time; in every case the storage,
  the list of \<open>setItem\<close> calls included, is left as it was. This holds of
  \<open>determineInitialTheme\<close> itself, of the \<open>DOMContentLoaded\<close> callback that runs it, and of the
  loading of a page as a whole.
\<close>

theorem determineInitialTheme_spec:
  "(\<not> readFails s \<and> storedTheme s = Some t \<and> (t = ''light'' \<or> t = ''dark'') \<longrightarrow>
      themeApplied t (determineInitialTheme s) \<and>
      themeApplied t (onDOMContentLoaded s) \<and>
      (fresh s \<longrightarrow> themeApplied t (loadedPage s))) \<and>
   (readFails s \<or> storedTheme s \<notin> {Some ''light'', Some ''dark''} \<longrightarrow>
      themeApplied (systemTheme s) (determineInitialTheme s) \<and>
      themeApplied (systemTheme s) (onDOMContentLoaded s) \<and>
      (fresh s \<longrightarrow> themeApplied (systemTheme s) (loadedPage s))) \<and>
   localStorage (determineInitialTheme s) = localStorage s \<and>
   localStorage (onDOMContentLoaded s) = localStorage s \<and>
   (fresh s \<longrightarrow> localStorage (loadedPage s) = localStorage s)"
proof (intro conjI impI)
  assume h: "\<not> readFails s \<and> storedTheme s = Some t \<and> (t = ''light'' \<or> t = ''dark'')"
  show "themeApplied t (determineInitialTheme s)"
    using h by (simp add: determineInitialTheme_stored)
  show "themeApplied t (onDOMContentLoaded s)"
    using h by (simp add: onDOMContentLoaded_stored)
  assume "fresh s"
  then show "themeApplied t (loadedPage s)"
    using h by (simp add: loadedPage_stored)
next
  assume h: "readFails s \<or> storedTheme s \<notin> {Some ''light'', Some ''dark''}"
  show "themeApplied (systemTheme s) (determineInitialTheme s)"
    using h by (rule determineInitialTheme_system)
  show "themeApplied (systemTheme s) (onDOMContentLoaded s)"
    using h by (rule onDOMContentLoaded_system)
  assume "fresh s"
  then show "themeApplied (systemTheme s) (loadedPage s)"
    using h by (rule loadedPage_system)
next
  show "localStorage (determineInitialTheme s) = localStorage s"
    by (rule localStorage_determineInitialTheme)
  show "localStorage (onDOMContentLoaded s) = localStorage s"
    by (rule localStorage_onDOMContentLoaded)
next
  assume "fresh s"
  then show "localStorage (loadedPage s) = localStorage s"
    by (rule loadedPage_localStorage)
qed

theorem determineInitialTheme_spec_witness:
  "themeApplied ''dark'' (loadedPage (withStorage [(''site-theme'', ''dark'')] False False examplePage)) \<and>
   themeApplied ''light'' (loadedPage examplePage) \<and>
   themeApplied ''light''
     (loadedPage (storageDisabled (withStorage [(''site-theme'', ''dark'')] False False examplePage))) \<and>
   themeApplied ''light'' (loadedPage (withStorage [(''site-theme'', ''blue'')] False False examplePage)) \<and>
   localStorage (loadedPage examplePage) = localStorage examplePage \<and>
   themeApplied ''dark''
     (determineInitialTheme (withStorage [(''site-theme'', ''dark'')] False False examplePage))"
proof -
  let ?s = "withStorage [(''site-theme'', ''dark'')] False False examplePage"
  let ?f = "storageDisabled (withStorage [(''site-theme'', ''dark'')] False False examplePage)"
  let ?b = "withStorage [(''site-theme'', ''blue'')] False False examplePage"
  have f1: "fresh ?s" and f2: "fresh examplePage" and f3: "fresh ?f" and f4: "fresh ?b"
    by code_simp+
  have h1: "\<not> readFails ?s \<and> storedTheme ?s = Some ''dark'' \<and>
      (''dark'' = ''light'' \<or> ''dark'' = ''dark'')"
    by code_simp
  have h2: "readFails examplePage \<or> storedTheme examplePage \<notin> {Some ''light'', Some ''dark''}"
    by code_simp
  have h3: "readFails ?f \<or> storedTheme ?f \<notin> {Some ''light'', Some ''dark''}"
    by code_simp
  have h4: "readFails ?b \<or> storedTheme ?b \<notin> {Some ''light'', Some ''dark''}"
    by code_simp
  have s2: "systemTheme examplePage = ''light''" by code_simp
  have s3: "systemTheme ?f = ''light''" by code_simp
  have s4: "systemTheme ?b = ''light''" by code_simp
  have a: "themeApplied ''dark'' (loadedPage ?s) \<and> themeApplied ''dark'' (determineInitialTheme ?s)"
    using determineInitialTheme_spec [of ?s "''dark''"] h1 f1 by blast
  have b: "themeApplied (systemTheme examplePage) (loadedPage examplePage)"
    using determineInitialTheme_spec [of examplePage "''dark''"] h2 f2 by blast
  have c: "themeApplied (systemTheme ?f) (loadedPage ?f)"
    using determineInitialTheme_spec [of ?f "''dark''"] h3 f3 by blast
  have d: "themeApplied (systemTheme ?b) (loadedPage ?b)"
    using determineInitialTheme_spec [of ?b "''dark''"] h4 f4 by blast
  have e: "localStorage (loadedPage examplePage) = localStorage examplePage"
    using determineInitialTheme_spec [of examplePage "''dark''"] f2 by blast
  show ?thesis
    using a b c d e by (simp only: s2 s3 s4 simp_thms)
qed

text \<open>
  Claim C2, as the code has it. For every current theme t in {"light", "dark"},
  \<open>toggleTheme\<close> sets the in-memory theme and the root element's \<open>data-theme\<close> attribute
  (and the button's labels) to the opposite of t. It calls \<open>setItem\<close> once, with the theme
  key and that opposite value, unless evaluating \<open>localStorage\<close> throws, in which case
  \<open>setItem\<close> is not reached. The storage then holds the opposite value under the theme
  key when neither throws; otherwise the exception is caught, the stored value is the one
  from before and one warning is logged. The switch itself is logged in every case. On a
  loaded page a click on the theme button runs \<open>toggleTheme\<close>.
\<close>

theorem toggleTheme_spec:
  "(currentTheme (app s) = t \<and> (t = ''light'' \<or> t = ''dark'') \<longrightarrow>
     themeApplied (opposite t) (toggleTheme s) \<and>
     setItemCalls (localStorage (toggleTheme s)) =
       setItemCalls (localStorage s) @
         (if accessThrows (localStorage s) then [] else [(STORAGE_KEYS_THEME, opposite t)]) \<and>
     storedTheme (toggleTheme s) = (if writeFails s then storedTheme s else Some (opposite t)) \<and>
     console (toggleTheme s) =
       console s @ (if writeFails s then [WarnStorageSetFailed] else []) @
         [LogThemeSwitched (opposite t = ''dark'')]) \<and>
   (fresh s \<longrightarrow>
      step (UserClick ThemeToggle) (loadedPage s) =
        (if inDocument s ThemeToggle then toggleTheme ((loadedPage s)\<lparr>defaultPrevented := False\<rparr>)
         else loadedPage s))"
proof (intro impI conjI)
  assume h: "currentTheme (app s) = t \<and> (t = ''light'' \<or> t = ''dark'')"
  show "themeApplied (opposite t) (toggleTheme s)"
    using toggleTheme_applied [of s] h by simp
  show "setItemCalls (localStorage (toggleTheme s)) =
       setItemCalls (localStorage s) @
         (if accessThrows (localStorage s) then [] else [(STORAGE_KEYS_THEME, opposite t)])"
    using h by (simp add: toggleTheme_storage)
  show "storedTheme (toggleTheme s) = (if writeFails s then storedTheme s else Some (opposite t))"
    using h by (simp add: toggleTheme_storage storedTheme_def writeFails_def)
  show "console (toggleTheme s) =
       console s @ (if writeFails s then [WarnStorageSetFailed] else []) @
         [LogThemeSwitched (opposite t = ''dark'')]"
    using h by (simp add: console_toggleTheme)
next
  assume "fresh s"
  then show "step (UserClick ThemeToggle) (loadedPage s) =
        (if inDocument s ThemeToggle then toggleTheme ((loadedPage s)\<lparr>defaultPrevented := False\<rparr>)
         else loadedPage s)"
    by (rule loadedPage_click_theme)
qed

theorem toggleTheme_spec_witness:
  "themeApplied ''dark'' (toggleTheme (loadedPage examplePage)) \<and>
   setItemCalls (localStorage (toggleTheme (loadedPage examplePage))) =
     setItemCalls (localStorage (loadedPage examplePage)) @ [(STORAGE_KEYS_THEME, ''dark'')] \<and>
   storedTheme (toggleTheme (loadedPage examplePage)) = Some ''dark'' \<and>
   console (toggleTheme (loadedPage examplePage)) =
     console (loadedPage examplePage) @ [LogThemeSwitched True] \<and>
   setItemCalls (localStorage (toggleTheme (loadedPage (storageDisabled examplePage)))) =
     setItemCalls (localStorage (loadedPage (storageDisabled examplePage))) \<and>
   console (toggleTheme (loadedPage (storageDisabled examplePage))) =
     console (loadedPage (storageDisabled examplePage)) @
       [WarnStorageSetFailed, LogThemeSwitched True] \<and>
   step (UserClick ThemeToggle) (loadedPage examplePage) =
     toggleTheme ((loadedPage examplePage)\<lparr>defaultPrevented := False\<rparr>)"
proof -
  let ?s = "loadedPage examplePage"
  let ?d = "loadedPage (storageDisabled examplePage)"
  have h: "currentTheme (app ?s) = ''light'' \<and> (''light'' = ''light'' \<or> ''light'' = ''dark'')"
    by code_simp
  have hd: "currentTheme (app ?d) = ''light'' \<and> (''light'' = ''light'' \<or> ''light'' = ''dark'')"
    by code_simp
  have o: "opposite ''light'' = ''dark''" by code_simp
  have od: "(''dark'' = ''dark'') = True" by simp
  have w: "\<not> writeFails ?s" "\<not> accessThrows (localStorage ?s)" by code_simp+
  have wd: "writeFails ?d" "accessThrows (localStorage ?d)" by code_simp+
  have f: "fresh examplePage" by code_simp
  have i: "inDocument examplePage ThemeToggle" by code_simp
  have a: "themeApplied (opposite ''light'') (toggleTheme ?s) \<and>
     setItemCalls (localStorage (toggleTheme ?s)) =
       setItemCalls (localStorage ?s) @
         (if accessThrows (localStorage ?s) then [] else [(STORAGE_KEYS_THEME, opposite ''light'')]) \<and>
     storedTheme (toggleTheme ?s) = (if writeFails ?s then storedTheme ?s else Some (opposite ''light'')) \<and>
     console (toggleTheme ?s) =
       console ?s @ (if writeFails ?s then [WarnStorageSetFailed] else []) @
         [LogThemeSwitched (opposite ''light'' = ''dark'')]"
    using toggleTheme_spec [of ?s "''light''"] h by blast
  have b: "setItemCalls (localStorage (toggleTheme ?d)) =
       setItemCalls (localStorage ?d) @
         (if accessThrows (localStorage ?d) then [] else [(STORAGE_KEYS_THEME, opposite ''light'')]) \<and>
     console (toggleTheme ?d) =
       console ?d @ (if writeFails ?d then [WarnStorageSetFailed] else []) @
         [LogThemeSwitched (opposite ''light'' = ''dark'')]"
    using toggleTheme_spec [of ?d "''light''"] hd by blast
  have c: "step (UserClick ThemeToggle) (loadedPage examplePage) =
        (if inDocument examplePage ThemeToggle
         then toggleTheme ((loadedPage examplePage)\<lparr>defaultPrevented := False\<rparr>)
         else loadedPage examplePage)"
    using toggleTheme_spec [of examplePage "''light''"] f by blast
  show ?thesis
    using a b c w wd i by (simp only: o od if_False if_True append_Nil append_Nil2 append.simps simp_thms)
qed

text \<open>The claim as the specification states it fails where \<open>setItem\<close> throws: on a loaded
  page with the light theme and a storage that refuses writes, a toggle shows the dark
  theme and the theme key stays absent.\<close>

theorem toggleTheme_persist_counterexample:
  "currentTheme (app (loadedPage (withStorage [] False True examplePage))) = ''light'' \<and>
   currentTheme (app (toggleTheme (loadedPage (withStorage [] False True examplePage)))) = ''dark'' \<and>
   storedTheme (toggleTheme (loadedPage (withStorage [] False True examplePage))) = None"
  by code_simp

text \<open>
  Claim C3, as the code has it. Where neither reading nor writing the storage throws,
  after a toggle every later system colour-scheme change, whatever happened in between,
  leaves the applied theme unchanged, the in-memory theme and the \<open>data-theme\<close> attribute
  with it: the handler returns the state it was given, and the event as a whole changes
  nothing but the system preference it reports. A system change alters the theme only
  when the read of the theme key yields nothing or the empty string (key absent, empty
  value or failing read), and then it applies the new system theme; a read that yields a
  non-empty value makes the handler do nothing. On a loaded page a change of the system
  colour scheme runs that handler, once.
\<close>

theorem system_change_after_toggle:
  "(\<not> readFails s \<and> \<not> writeFails s \<longrightarrow>
      handleSystemThemeChange m (run ins (toggleTheme s)) = run ins (toggleTheme s) \<and>
      (mediaWired s \<longrightarrow>
         step (SystemTheme m) (run ins (toggleTheme s)) =
           (if prefersDark (run ins (toggleTheme s)) = m then run ins (toggleTheme s)
            else (run ins (toggleTheme s))\<lparr>prefersDark := m, defaultPrevented := False\<rparr>))) \<and>
   (\<not> readFails s \<and> storedTheme s = Some v \<and> v \<noteq> [] \<longrightarrow>
      handleSystemThemeChange m s = s) \<and>
   (readFails s \<or> storedTheme s = None \<or> storedTheme s = Some [] \<longrightarrow>
      themeApplied (if m then ''dark'' else ''light'') (handleSystemThemeChange m s)) \<and>
   (fresh s \<longrightarrow>
      step (SystemTheme m) (loadedPage s) =
        (if prefersDark s = m then loadedPage s
         else handleSystemThemeChange m
                ((loadedPage s)\<lparr>prefersDark := m, defaultPrevented := False\<rparr>)))"
proof (intro conjI impI)
  assume h: "\<not> readFails s \<and> \<not> writeFails s"
  have p: "choicePersisted (run ins (toggleTheme s))"
    using h by (simp add: choicePersisted_run choicePersisted_toggleTheme)
  then obtain u where u: "storedTheme (run ins (toggleTheme s)) = Some u" "u \<noteq> []"
    by (auto simp add: choicePersisted_def)
  have g: "\<not> readFails (run ins (toggleTheme s))"
    using p by (simp add: choicePersisted_def)
  show "handleSystemThemeChange m (run ins (toggleTheme s)) = run ins (toggleTheme s)"
    using g u by (rule handleSystemThemeChange_ignored)
  assume "mediaWired s"
  then have "mediaWired (toggleTheme s)"
    by (simp add: mediaWired_listeners [of "toggleTheme s" s])
  then have "mediaWired (run ins (toggleTheme s))"
    by (rule mediaWired_run)
  then show "step (SystemTheme m) (run ins (toggleTheme s)) =
           (if prefersDark (run ins (toggleTheme s)) = m then run ins (toggleTheme s)
            else (run ins (toggleTheme s))\<lparr>prefersDark := m, defaultPrevented := False\<rparr>)"
    using g u by (rule system_change_event_ignored)
next
  assume "\<not> readFails s \<and> storedTheme s = Some v \<and> v \<noteq> []"
  then show "handleSystemThemeChange m s = s"
    by (simp add: handleSystemThemeChange_ignored)
next
  assume "readFails s \<or> storedTheme s = None \<or> storedTheme s = Some []"
  then show "themeApplied (if m then ''dark'' else ''light'') (handleSystemThemeChange m s)"
    by (rule handleSystemThemeChange_applied)
next
  assume "fresh s"
  then show "step (SystemTheme m) (loadedPage s) =
        (if prefersDark s = m then loadedPage s
         else handleSystemThemeChange m
                ((loadedPage s)\<lparr>prefersDark := m, defaultPrevented := False\<rparr>))"
    by (rule loadedPage_system_change)
qed

theorem system_change_after_toggle_witness:
  "handleSystemThemeChange False
     (run [UserScroll 400, SystemTheme True, UserClick HomeBtn] (toggleTheme (loadedPage examplePage))) =
   run [UserScroll 400, SystemTheme True, UserClick HomeBtn] (toggleTheme (loadedPage examplePage)) \<and>
   step (SystemTheme False)
     (run [UserScroll 400, SystemTheme True, UserClick HomeBtn] (toggleTheme (loadedPage examplePage))) =
   (run [UserScroll 400, SystemTheme True, UserClick HomeBtn] (toggleTheme (loadedPage examplePage)))
     \<lparr>prefersDark := False, defaultPrevented := False\<rparr> \<and>
   handleSystemThemeChange True (withStorage [(''site-theme'', ''blue'')] False False examplePage) =
     withStorage [(''site-theme'', ''blue'')] False False examplePage \<and>
   themeApplied ''dark'' (handleSystemThemeChange True (loadedPage examplePage)) \<and>
   step (SystemTheme True) (loadedPage examplePage) =
     handleSystemThemeChange True
       ((loadedPage examplePage)\<lparr>prefersDark := True, defaultPrevented := False\<rparr>)"
proof -
  let ?b = "withStorage [(''site-theme'', ''blue'')] False False examplePage"
  let ?r = "run [UserScroll 400, SystemTheme True, UserClick HomeBtn] (toggleTheme (loadedPage examplePage))"
  have h1: "\<not> readFails (loadedPage examplePage) \<and> \<not> writeFails (loadedPage examplePage)"
    by code_simp
  have w: "mediaWired (loadedPage examplePage)"
    by code_simp
  have h2: "\<not> readFails ?b \<and> storedTheme ?b = Some ''blue'' \<and> ''blue'' \<noteq> []"
    by code_simp
  have h3: "readFails (loadedPage examplePage) \<or> storedTheme (loadedPage examplePage) = None \<or>
      storedTheme (loadedPage examplePage) = Some []"
    by code_simp
  have f: "fresh examplePage" by code_simp
  have pd: "prefersDark ?r \<noteq> False" by code_simp
  have pe: "prefersDark examplePage \<noteq> True" by code_simp
  have a: "handleSystemThemeChange False ?r = ?r \<and>
      step (SystemTheme False) ?r =
        (if prefersDark ?r = False then ?r else ?r\<lparr>prefersDark := False, defaultPrevented := False\<rparr>)"
    using system_change_after_toggle [of "loadedPage examplePage" False
        "[UserScroll 400, SystemTheme True, UserClick HomeBtn]" "''blue''"] h1 w
    by blast
  have b: "handleSystemThemeChange True ?b = ?b"
    using system_change_after_toggle [of ?b True "[]" "''blue''"] h2 by blast
  have c: "themeApplied (if True then ''dark'' else ''light'')
      (handleSystemThemeChange True (loadedPage examplePage))"
    using system_change_after_toggle [of "loadedPage examplePage" True "[]" "''blue''"] h3 by blast
  have d: "step (SystemTheme True) (loadedPage examplePage) =
        (if prefersDark examplePage = True then loadedPage examplePage
         else handleSystemThemeChange True
                ((loadedPage examplePage)\<lparr>prefersDark := True, defaultPrevented := False\<rparr>))"
    using system_change_after_toggle [of examplePage True "[]" "''blue''"] f by blast
  show ?thesis
    using a b c d pd pe by (simp only: if_False if_True simp_thms)
qed

text \<open>The claim as the specification states it fails where \<open>setItem\<close> throws. The system
  prefers the light scheme and the page is loaded with the light theme; the user toggles
  to the dark theme and nothing is stored; the system changes to the dark scheme, which
  leaves the dark theme in place; the system changes back to the light scheme, and that
  event switches the page to the light theme.\<close>

theorem system_change_counterexample:
  "prefersDark (loadedPage (withStorage [] False True examplePage)) = False \<and>
   currentTheme (app (run [UserClick ThemeToggle]
      (loadedPage (withStorage [] False True examplePage)))) = ''dark'' \<and>
   prefersDark (run [UserClick ThemeToggle, SystemTheme True]
      (loadedPage (withStorage [] False True examplePage))) = True \<and>
   currentTheme (app (run [UserClick ThemeToggle, SystemTheme True]
      (loadedPage (withStorage [] False True examplePage)))) = ''dark'' \<and>
   attributes (run [UserClick ThemeToggle, SystemTheme True]
      (loadedPage (withStorage [] False True examplePage))) (DocumentElement, ''data-theme'')
     = Some (Str ''dark'') \<and>
   currentTheme (app (run [UserClick ThemeToggle, SystemTheme True, SystemTheme False]
      (loadedPage (withStorage [] False True examplePage)))) = ''light'' \<and>
   attributes (run [UserClick ThemeToggle, SystemTheme True, SystemTheme False]
      (loadedPage (withStorage [] False True examplePage))) (DocumentElement, ''data-theme'')
     = Some (Str ''light'')"
  by code_simp

text \<open>
  Claim C4. Along every run, from any state: every \<open>setItem\<close> call the script makes has
  the theme key and the value "light" or "dark", so the value under the theme key is the
  one from before the run or one of the two; and an absent key is read as no choice of
  the user: initialization applies the theme of the system preference, and a system
  change applies the new system theme.
\<close>

theorem storage_writes_are_themes:
  "(\<exists>ws. setItemCalls (localStorage (run ins s)) = setItemCalls (localStorage s) @ ws \<and>
         list_all themeWrite ws) \<and>
   (storedTheme (run ins s) = storedTheme s \<or> storedTheme (run ins s) = Some ''light'' \<or>
    storedTheme (run ins s) = Some ''dark'') \<and>
   (\<not> getItemThrows (localStorage s) \<and> storedTheme s = None \<longrightarrow>
      themeApplied (systemTheme s) (determineInitialTheme s) \<and>
      themeApplied (if m then ''dark'' else ''light'') (handleSystemThemeChange m s))"
  using storageEvolves_run [of s ins] determineInitialTheme_system [of s]
    handleSystemThemeChange_applied [of s m]
  by (simp add: storageEvolves_def storedTheme_def)

theorem storage_writes_are_themes_witness:
  "(\<exists>ws. setItemCalls (localStorage
            (run [PageLoaded, UserClick ThemeToggle, SystemTheme True, UserClick ThemeToggle]
               (constructor examplePage))) =
          setItemCalls (localStorage (constructor examplePage)) @ ws \<and>
         list_all themeWrite ws) \<and>
   themeApplied (systemTheme (constructor examplePage))
     (determineInitialTheme (constructor examplePage)) \<and>
   themeApplied (if True then ''dark'' else ''light'')
     (handleSystemThemeChange True (constructor examplePage))"
proof -
  have h: "\<not> getItemThrows (localStorage (constructor examplePage)) \<and>
      storedTheme (constructor examplePage) = None"
    by code_simp
  show ?thesis
    using storage_writes_are_themes [of
        "[PageLoaded, UserClick ThemeToggle, SystemTheme True, UserClick ThemeToggle]"
        "constructor examplePage" True] h
    by blast
qed

text \<open>
  Claim C5 fails on the code: \<open>isInitialized\<close> is set by the \<open>DOMContentLoaded\<close> callback,
  not by \<open>init\<close>, so a call of \<open>init\<close> before the page has loaded passes the guard and
  registers a second callback. Both run when the event fires: the setup is done twice,
  every listener is registered twice, and one click on the theme button toggles the theme
  twice, which leaves it as it was.
\<close>

theorem double_init_runs_setup_twice:
  "console (run [InitCalled, PageLoaded] (constructor examplePage)) = [LogInitialized, LogInitialized] \<and>
   listenersFor (TElem ThemeToggle) EvClick (run [InitCalled, PageLoaded] (constructor examplePage))
     = [OnThemeClick, OnThemeClick] \<and>
   currentTheme (app (run [InitCalled, PageLoaded] (constructor examplePage))) = ''light'' \<and>
   currentTheme (app (run [InitCalled, PageLoaded, UserClick ThemeToggle] (constructor examplePage)))
     = ''light''"
  by code_simp

text \<open>What the guard does achieve: once the callback has run, a call of \<open>init\<close> only
  warns; and a page whose \<open>init\<close> is called by the constructor alone is set up once.\<close>

lemma init_after_load: "isInitialized (app s) \<Longrightarrow> init s = warn WarnAlreadyInitialized s"
  by (simp add: init_def)

lemma single_init_runs_setup_once:
  "console (run [PageLoaded, InitCalled, PageLoaded] (constructor examplePage))
     = [LogInitialized, WarnAlreadyInitialized] \<and>
   listenersFor (TElem ThemeToggle) EvClick
     (run [PageLoaded, InitCalled, PageLoaded] (constructor examplePage)) = [OnThemeClick]"
  by code_simp

text \<open>
  Claim C6, as the code has it. A call of \<open>smoothScrollToElement\<close> with no element logs a
  warning and does nothing else; with an element it scrolls it into view, smoothly and
  centred unless the options say otherwise, and logs nothing. The click listener of the
  search button calls it with the section the instance holds. That listener is registered
  only when both the button and the section were found at setup: on a page without the
  section the button has no listener, so a click neither scrolls nor logs.
\<close>

theorem smoothScroll_spec:
  "smoothScrollToElement None options s = s\<lparr>console := console s @ [WarnScrollTargetMissing]\<rparr> \<and>
   smoothScrollToElement (Some el) options s =
     s\<lparr>scrollCalls := scrollCalls s @
         [ScrollIntoView el (spread [(''behavior'', ''smooth''), (''block'', ''center'')] options)]\<rparr> \<and>
   runHandler OnSearchBtnClick e s = smoothScrollToElement (searchSection (app s)) [] s \<and>
   listenersFor (TElem ScrollToSearch) EvClick (setupEventListeners (setupElements s)) =
     listenersFor (TElem ScrollToSearch) EvClick s @
       (if inDocument s ScrollToSearch \<and> inDocument s SearchSection then [OnSearchBtnClick] else [])"
  by (simp add: smoothScrollToElement_def warn_def Let_def searchBtn_wiring)

theorem smoothScroll_spec_witness:
  "scrollCalls (step (UserClick ScrollToSearch) (loadedPage examplePage)) =
     [ScrollIntoView SearchSection [(''behavior'', ''smooth''), (''block'', ''center'')]] \<and>
   smoothScrollToElement None [] examplePage =
     examplePage\<lparr>console := console examplePage @ [WarnScrollTargetMissing]\<rparr> \<and>
   listenersFor (TElem ScrollToSearch) EvClick
       (setupEventListeners (setupElements (withoutSection examplePage))) =
     listenersFor (TElem ScrollToSearch) EvClick (withoutSection examplePage) @
       (if inDocument (withoutSection examplePage) ScrollToSearch \<and>
           inDocument (withoutSection examplePage) SearchSection
        then [OnSearchBtnClick] else [])"
proof -
  have a: "scrollCalls (step (UserClick ScrollToSearch) (loadedPage examplePage)) =
     [ScrollIntoView SearchSection [(''behavior'', ''smooth''), (''block'', ''center'')]]"
    by code_simp
  show ?thesis
    using a smoothScroll_spec [of "[]" examplePage SearchSection Click]
      smoothScroll_spec [of "[]" "withoutSection examplePage" SearchSection Click]
    by blast
qed

text \<open>The claim as the specification states it fails on a page without the section:
  after loading, the instance holds no section, and a click on the search button leaves
  the console and the scroll calls as they were, with no warning logged.\<close>

theorem search_click_counterexample:
  "searchSection (app (loadedPage (withoutSection examplePage))) = None \<and>
   console (loadedPage (withoutSection examplePage)) = [LogInitialized] \<and>
   console (step (UserClick ScrollToSearch) (loadedPage (withoutSection examplePage)))
     = [LogInitialized] \<and>
   scrollCalls (step (UserClick ScrollToSearch) (loadedPage (withoutSection examplePage))) = []"
  by code_simp

text \<open>
  Claim C7, as the code has it. \<open>scrollToTop\<close> asks the window to scroll smoothly to the
  top and then gives the focus to the scroll-to-top button when the instance has one,
  whichever control triggered it; without that button the focus stays where it was. On a
  loaded page the click on the home button, the click on the scroll-to-top button and the
  keys Enter and Space on the scroll-to-top button run it, the keys after
  \<open>preventDefault\<close>; any other key on that button does nothing; and the handle of the
  instance is the scroll-to-top button of the page, if the page has one. Along every run
  from a state whose handle is empty or is that button, as it is from the constructor
  on, the focus is where it was at the start or on the scroll-to-top button: the script
  never gives it to the home button.
\<close>

theorem scrollToTop_spec:
  "scrollCalls (scrollToTop s) =
     scrollCalls s @ [WindowScrollTo [(''top'', ''0''), (''behavior'', ''smooth'')]] \<and>
   activeElement (scrollToTop s) =
     (case scrollTopBtn (app s) of None \<Rightarrow> activeElement s | Some b \<Rightarrow> Some b) \<and>
   runHandler OnHomeClick Click s = scrollToTop s \<and>
   runHandler OnScrollTopClick Click s = scrollToTop s \<and>
   runHandler OnScrollTopKeydown (Keydown ''Enter'') s = scrollToTop (preventDefault s) \<and>
   runHandler OnScrollTopKeydown (Keydown '' '') s = scrollToTop (preventDefault s) \<and>
   (fresh s \<longrightarrow>
      step (UserClick HomeBtn) (loadedPage s) =
        (if inDocument s HomeBtn then scrollToTop ((loadedPage s)\<lparr>defaultPrevented := False\<rparr>)
         else loadedPage s) \<and>
      step (UserClick ScrollTopBtn) (loadedPage s) =
        (if inDocument s ScrollTopBtn then scrollToTop ((loadedPage s)\<lparr>defaultPrevented := False\<rparr>)
         else loadedPage s) \<and>
      step (UserKeydown ScrollTopBtn key) (loadedPage s) =
        (if inDocument s ScrollTopBtn
         then (if key = ''Enter'' \<or> key = '' ''
               then scrollToTop (preventDefault ((loadedPage s)\<lparr>defaultPrevented := False\<rparr>))
               else (loadedPage s)\<lparr>defaultPrevented := False\<rparr>)
         else loadedPage s) \<and>
      scrollTopBtn (app (loadedPage s)) = getElementById ScrollTopBtn s) \<and>
   scrollTopResolved (constructor s) \<and>
   (scrollTopResolved s \<longrightarrow>
      scrollTopResolved (run ins s) \<and>
      (activeElement (run ins s) = activeElement s \<or>
       activeElement (run ins s) = Some ScrollTopBtn))"
proof (intro conjI impI)
  show "scrollCalls (scrollToTop s) =
     scrollCalls s @ [WindowScrollTo [(''top'', ''0''), (''behavior'', ''smooth'')]]"
    by (simp add: scrollToTop_def Let_def split: option.splits)
  show "activeElement (scrollToTop s) =
     (case scrollTopBtn (app s) of None \<Rightarrow> activeElement s | Some b \<Rightarrow> Some b)"
    by (simp add: scrollToTop_def Let_def split: option.splits)
  show "runHandler OnHomeClick Click s = scrollToTop s" by simp
  show "runHandler OnScrollTopClick Click s = scrollToTop s" by simp
  show "runHandler OnScrollTopKeydown (Keydown ''Enter'') s = scrollToTop (preventDefault s)"
    by simp
  show "runHandler OnScrollTopKeydown (Keydown '' '') s = scrollToTop (preventDefault s)"
    by simp
  show "scrollTopResolved (constructor s)"
    by (simp add: scrollTopResolved_def constructor_def init_def warn_def addEventListener_def)
next
  assume f: "fresh s"
  show "step (UserClick HomeBtn) (loadedPage s) =
        (if inDocument s HomeBtn then scrollToTop ((loadedPage s)\<lparr>defaultPrevented := False\<rparr>)
         else loadedPage s)"
    using f by (rule loadedPage_click_home)
  show "step (UserClick ScrollTopBtn) (loadedPage s) =
        (if inDocument s ScrollTopBtn then scrollToTop ((loadedPage s)\<lparr>defaultPrevented := False\<rparr>)
         else loadedPage s)"
    using f by (rule loadedPage_click_scrollTop)
  show "step (UserKeydown ScrollTopBtn key) (loadedPage s) =
        (if inDocument s ScrollTopBtn
         then (if key = ''Enter'' \<or> key = '' ''
               then scrollToTop (preventDefault ((loadedPage s)\<lparr>defaultPrevented := False\<rparr>))
               else (loadedPage s)\<lparr>defaultPrevented := False\<rparr>)
         else loadedPage s)"
    using f by (rule loadedPage_keydown_scrollTop)
  show "scrollTopBtn (app (loadedPage s)) = getElementById ScrollTopBtn s"
    using loadedPage_handles [OF f] by blast
next
  assume r: "scrollTopResolved s"
  have k: "focusKept s (run ins s)" using r by (rule focusKept_run)
  show "scrollTopResolved (run ins s)" using k by (simp add: focusKept_def)
  show "activeElement (run ins s) = activeElement s \<or>
       activeElement (run ins s) = Some ScrollTopBtn"
    using k by (simp add: focusKept_def)
qed

theorem scrollToTop_spec_witness:
  "scrollCalls (step (UserClick HomeBtn) (loadedPage examplePage)) =
     [WindowScrollTo [(''top'', ''0''), (''behavior'', ''smooth'')]] \<and>
   activeElement (step (UserClick HomeBtn) (loadedPage examplePage)) = Some ScrollTopBtn \<and>
   step (UserClick ScrollTopBtn) (loadedPage examplePage) =
     scrollToTop ((loadedPage examplePage)\<lparr>defaultPrevented := False\<rparr>) \<and>
   step (UserKeydown ScrollTopBtn ''Enter'') (loadedPage examplePage) =
     scrollToTop (preventDefault ((loadedPage examplePage)\<lparr>defaultPrevented := False\<rparr>)) \<and>
   step (UserKeydown ScrollTopBtn ''Tab'') (loadedPage examplePage) =
     (loadedPage examplePage)\<lparr>defaultPrevented := False\<rparr> \<and>
   scrollTopResolved
     (run [PageLoaded, UserClick HomeBtn, UserKeydown ScrollTopBtn '' '']
        (constructor ((examplePage)\<lparr>activeElement := Some HomeBtn\<rparr>)))"
proof -
  let ?L = "loadedPage examplePage"
  let ?c = "constructor ((examplePage)\<lparr>activeElement := Some HomeBtn\<rparr>)"
  have f: "fresh examplePage" by code_simp
  have i: "inDocument examplePage HomeBtn" "inDocument examplePage ScrollTopBtn" by code_simp+
  have k: "(''Enter'' = ''Enter'' \<or> ''Enter'' = '' '') = True" "(''Tab'' = ''Enter'' \<or> ''Tab'' = '' '') = False"
    by simp_all
  have sc: "scrollCalls (?L\<lparr>defaultPrevented := False\<rparr>) = []" by code_simp
  have hb: "scrollTopBtn (app (?L\<lparr>defaultPrevented := False\<rparr>)) = Some ScrollTopBtn" by code_simp
  have r: "scrollTopResolved ?c"
    using scrollToTop_spec [of "(examplePage)\<lparr>activeElement := Some HomeBtn\<rparr>"] by blast
  have a: "step (UserClick HomeBtn) ?L =
      (if inDocument examplePage HomeBtn then scrollToTop (?L\<lparr>defaultPrevented := False\<rparr>) else ?L)"
    and b: "step (UserClick ScrollTopBtn) ?L =
      (if inDocument examplePage ScrollTopBtn then scrollToTop (?L\<lparr>defaultPrevented := False\<rparr>) else ?L)"
    and c: "step (UserKeydown ScrollTopBtn ''Enter'') ?L =
        (if inDocument examplePage ScrollTopBtn
         then (if ''Enter'' = ''Enter'' \<or> ''Enter'' = '' ''
               then scrollToTop (preventDefault (?L\<lparr>defaultPrevented := False\<rparr>))
               else ?L\<lparr>defaultPrevented := False\<rparr>)
         else ?L)"
    and d: "step (UserKeydown ScrollTopBtn ''Tab'') ?L =
        (if inDocument examplePage ScrollTopBtn
         then (if ''Tab'' = ''Enter'' \<or> ''Tab'' = '' ''
               then scrollToTop (preventDefault (?L\<lparr>defaultPrevented := False\<rparr>))
               else ?L\<lparr>defaultPrevented := False\<rparr>)
         else ?L)"
    using scrollToTop_spec [of examplePage "''Enter''"] scrollToTop_spec [of examplePage "''Tab''"] f
    by blast+
  have a': "step (UserClick HomeBtn) ?L = scrollToTop (?L\<lparr>defaultPrevented := False\<rparr>)"
    using a i by (simp only: if_True)
  have e: "scrollCalls (scrollToTop (?L\<lparr>defaultPrevented := False\<rparr>)) =
       scrollCalls (?L\<lparr>defaultPrevented := False\<rparr>) @
         [WindowScrollTo [(''top'', ''0''), (''behavior'', ''smooth'')]] \<and>
     activeElement (scrollToTop (?L\<lparr>defaultPrevented := False\<rparr>)) =
       (case scrollTopBtn (app (?L\<lparr>defaultPrevented := False\<rparr>)) of
          None \<Rightarrow> activeElement (?L\<lparr>defaultPrevented := False\<rparr>) | Some b \<Rightarrow> Some b)"
    using scrollToTop_spec [of "?L\<lparr>defaultPrevented := False\<rparr>"] by blast
  have e1: "scrollCalls (step (UserClick HomeBtn) ?L) =
     [WindowScrollTo [(''top'', ''0''), (''behavior'', ''smooth'')]]"
    using e by (simp only: a' sc append_Nil)
  have e2: "activeElement (step (UserClick HomeBtn) ?L) = Some ScrollTopBtn"
    using e by (simp only: a' hb option.case)
  have g: "scrollTopResolved
     (run [PageLoaded, UserClick HomeBtn, UserKeydown ScrollTopBtn '' ''] ?c)"
    using scrollToTop_spec [of ?c _ "[PageLoaded, UserClick HomeBtn, UserKeydown ScrollTopBtn '' '']"] r
    by blast
  show ?thesis
    using e1 e2 b c d g i by (simp only: k if_True if_False simp_thms)
qed

text \<open>The claim as the specification states it fails for the home button: with the
  focus on the home button, a click on it moves the focus to the scroll-to-top button.\<close>

theorem scrollToTop_focus_counterexample:
  "activeElement ((loadedPage examplePage)\<lparr>activeElement := Some HomeBtn\<rparr>) = Some HomeBtn \<and>
   activeElement (step (UserClick HomeBtn) ((loadedPage examplePage)\<lparr>activeElement := Some HomeBtn\<rparr>))
     = Some ScrollTopBtn"
  by code_simp

text \<open>
  Claim C8. On a submission of the search form: if the input named "q" has a trimmed
  value that is not empty, exactly that trimmed string is logged; if the trimmed value is
  empty, which is the case exactly for input of white space only, or if there is no such
  input, nothing is logged and the state is unchanged; and the handler never calls
  \<open>preventDefault\<close>. This holds of \<open>handleSearch\<close>, of the submit listener that runs it, and
  of the submission of the form on a loaded page, where the default action is not
  prevented.
\<close>

theorem handleSearch_spec:
  "(searchForm (app s) = Some f \<and> searchInput s = Some v \<longrightarrow>
      handleSearch s =
        Inr (if trim v \<noteq> [] then s\<lparr>console := console s @ [LogSearch (trim v)]\<rparr> else s) \<and>
      runHandler OnSubmit e s =
        (if trim v \<noteq> [] then s\<lparr>console := console s @ [LogSearch (trim v)]\<rparr> else s) \<and>
      (list_all isWhiteSpace v \<longrightarrow> runHandler OnSubmit Submit s = s)) \<and>
   (searchForm (app s) = Some f \<and> searchInput s = None \<longrightarrow>
      handleSearch s = Inr s \<and> runHandler OnSubmit e s = s) \<and>
   (trim v = [] \<longleftrightarrow> list_all isWhiteSpace v) \<and>
   defaultPrevented (runHandler OnSubmit Submit s) = defaultPrevented s \<and>
   (fresh s \<and> inDocument s SearchForm \<and> searchInput s = Some v \<longrightarrow>
      step UserSubmit (loadedPage s) =
        (if trim v \<noteq> []
         then (loadedPage s)\<lparr>defaultPrevented := False,
                console := console (loadedPage s) @ [LogSearch (trim v)]\<rparr>
         else (loadedPage s)\<lparr>defaultPrevented := False\<rparr>))"
proof (intro conjI impI)
  assume h: "searchForm (app s) = Some f \<and> searchInput s = Some v"
  then show "handleSearch s =
        Inr (if trim v \<noteq> [] then s\<lparr>console := console s @ [LogSearch (trim v)]\<rparr> else s)"
    by (simp add: handleSearch_input)
  show "runHandler OnSubmit e s =
        (if trim v \<noteq> [] then s\<lparr>console := console s @ [LogSearch (trim v)]\<rparr> else s)"
    using h by (simp add: handleSearch_input)
  assume "list_all isWhiteSpace v"
  then have "trim v = []" by (simp add: trim_empty_iff)
  then show "runHandler OnSubmit Submit s = s"
    using h by (simp add: handleSearch_input)
next
  assume h: "searchForm (app s) = Some f \<and> searchInput s = None"
  then show "handleSearch s = Inr s" by (simp add: handleSearch_no_input)
  show "runHandler OnSubmit e s = s" using h by (simp add: handleSearch_no_input)
next
  show "(trim v = []) = list_all isWhiteSpace v" by (rule trim_empty_iff)
next
  show "defaultPrevented (runHandler OnSubmit Submit s) = defaultPrevented s"
    by (rule defaultPrevented_OnSubmit)
next
  assume h: "fresh s \<and> inDocument s SearchForm \<and> searchInput s = Some v"
  let ?L = "(loadedPage s)\<lparr>defaultPrevented := False\<rparr>"
  have f: "fresh s" using h by simp
  have a: "searchForm (app ?L) = Some SearchForm"
    using loadedPage_handles [OF f] h by (simp add: getElementById_def)
  have b: "searchInput ?L = Some v"
    using loadedPage_searchInput [OF f] h by simp
  have i: "inDocument s SearchForm" using h by simp
  have "step UserSubmit (loadedPage s) = runHandler OnSubmit Submit ?L"
    using i by (simp only: loadedPage_submit [OF f] if_True)
  also have "\<dots> = (if trim v \<noteq> [] then ?L\<lparr>console := console ?L @ [LogSearch (trim v)]\<rparr> else ?L)"
    using a b by (simp add: handleSearch_input)
  finally show "step UserSubmit (loadedPage s) =
        (if trim v \<noteq> []
         then (loadedPage s)\<lparr>defaultPrevented := False,
                console := console (loadedPage s) @ [LogSearch (trim v)]\<rparr>
         else (loadedPage s)\<lparr>defaultPrevented := False\<rparr>)"
    by simp
qed

theorem handleSearch_spec_witness:
  "step UserSubmit (loadedPage (examplePage\<lparr>searchInput := Some (utf16 ''  windows 95 '')\<rparr>)) =
     (loadedPage (examplePage\<lparr>searchInput := Some (utf16 ''  windows 95 '')\<rparr>))
       \<lparr>defaultPrevented := False,
        console := console (loadedPage (examplePage\<lparr>searchInput := Some (utf16 ''  windows 95 '')\<rparr>))
                   @ [LogSearch (utf16 ''windows 95'')]\<rparr> \<and>
   step UserSubmit (loadedPage (examplePage\<lparr>searchInput := Some (utf16 ''   '')\<rparr>)) =
     (loadedPage (examplePage\<lparr>searchInput := Some (utf16 ''   '')\<rparr>))\<lparr>defaultPrevented := False\<rparr> \<and>
   handleSearch ((loadedPage examplePage)\<lparr>searchInput := Some (utf16 ''  windows 95 '')\<rparr>) =
     Inr ((loadedPage examplePage)
            \<lparr>searchInput := Some (utf16 ''  windows 95 ''),
              console := console ((loadedPage examplePage)
                                    \<lparr>searchInput := Some (utf16 ''  windows 95 '')\<rparr>)
                         @ [LogSearch (utf16 ''windows 95'')]\<rparr>) \<and>
   runHandler OnSubmit Submit ((loadedPage examplePage)\<lparr>searchInput := Some (utf16 ''   '')\<rparr>) =
     (loadedPage examplePage)\<lparr>searchInput := Some (utf16 ''   '')\<rparr> \<and>
   handleSearch ((loadedPage examplePage)\<lparr>searchInput := None\<rparr>) =
     Inr ((loadedPage examplePage)\<lparr>searchInput := None\<rparr>)"
proof -
  let ?p = "examplePage\<lparr>searchInput := Some (utf16 ''  windows 95 '')\<rparr>"
  let ?q = "examplePage\<lparr>searchInput := Some (utf16 ''   '')\<rparr>"
  let ?s = "(loadedPage examplePage)\<lparr>searchInput := Some (utf16 ''  windows 95 '')\<rparr>"
  let ?w = "(loadedPage examplePage)\<lparr>searchInput := Some (utf16 ''   '')\<rparr>"
  let ?n = "(loadedPage examplePage)\<lparr>searchInput := None\<rparr>"
  have p1: "fresh ?p \<and> inDocument ?p SearchForm \<and> searchInput ?p = Some (utf16 ''  windows 95 '')"
    by code_simp
  have p2: "fresh ?q \<and> inDocument ?q SearchForm \<and> searchInput ?q = Some (utf16 ''   '')"
    by code_simp
  have h1: "searchForm (app ?s) = Some SearchForm \<and> searchInput ?s = Some (utf16 ''  windows 95 '')"
    by code_simp
  have h2: "searchForm (app ?w) = Some SearchForm \<and> searchInput ?w = Some (utf16 ''   '')"
    by code_simp
  have h3: "searchForm (app ?n) = Some SearchForm \<and> searchInput ?n = None"
    by code_simp
  have t1: "trim (utf16 ''  windows 95 '') = utf16 ''windows 95''" by code_simp
  have n1: "utf16 ''windows 95'' \<noteq> []" by code_simp
  have t2: "trim (utf16 ''   '') = []" by code_simp
  have w2: "list_all isWhiteSpace (utf16 ''   '')" by code_simp
  have "step UserSubmit (loadedPage ?p) =
        (if trim (utf16 ''  windows 95 '') \<noteq> []
         then (loadedPage ?p)\<lparr>defaultPrevented := False,
                console := console (loadedPage ?p) @ [LogSearch (trim (utf16 ''  windows 95 ''))]\<rparr>
         else (loadedPage ?p)\<lparr>defaultPrevented := False\<rparr>)"
    using handleSearch_spec [of ?p SearchForm "utf16 ''  windows 95 ''"] p1 by blast
  then have a: "step UserSubmit (loadedPage ?p) =
      (loadedPage ?p)\<lparr>defaultPrevented := False,
         console := console (loadedPage ?p) @ [LogSearch (utf16 ''windows 95'')]\<rparr>"
    using n1 by (simp only: t1 if_True simp_thms)
  have "step UserSubmit (loadedPage ?q) =
        (if trim (utf16 ''   '') \<noteq> []
         then (loadedPage ?q)\<lparr>defaultPrevented := False,
                console := console (loadedPage ?q) @ [LogSearch (trim (utf16 ''   ''))]\<rparr>
         else (loadedPage ?q)\<lparr>defaultPrevented := False\<rparr>)"
    using handleSearch_spec [of ?q SearchForm "utf16 ''   ''"] p2 by blast
  then have b: "step UserSubmit (loadedPage ?q) = (loadedPage ?q)\<lparr>defaultPrevented := False\<rparr>"
    by (simp only: t2 if_False simp_thms)
  have "handleSearch ?s =
      Inr (if trim (utf16 ''  windows 95 '') \<noteq> []
           then ?s\<lparr>console := console ?s @ [LogSearch (trim (utf16 ''  windows 95 ''))]\<rparr> else ?s)"
    using handleSearch_spec [of ?s SearchForm "utf16 ''  windows 95 ''"] h1 by blast
  then have c: "handleSearch ?s = Inr (?s\<lparr>console := console ?s @ [LogSearch (utf16 ''windows 95'')]\<rparr>)"
    using n1 by (simp only: t1 if_True simp_thms)
  have d: "runHandler OnSubmit Submit ?w = ?w"
    using handleSearch_spec [of ?w SearchForm "utf16 ''   ''"] h2 w2 by blast
  have e: "handleSearch ?n = Inr ?n"
    using handleSearch_spec [of ?n SearchForm] h3 by blast
  show ?thesis
    using a b c d e by simp
qed

text \<open>
  Claim C9. The intro animation gives the selected blocks, taken in document order, the
  delays 0, 120, 240, ... milliseconds: the block at position \<open>index\<close> of the selection
  gets \<open>index * ANIMATION_DELAY\<close>. The delays are strictly increasing along the selection,
  the selection is in document order, the first selected block gets zero, and every
  selected block carries the class \<open>fade-in\<close> afterwards.
\<close>

theorem animateIntro_spec:
  "map (\<lambda>el. animationDelay (blocks (animateIntro s) ! el)) (querySelectorAll fadeSelector s) =
     map (\<lambda>index. Some (index * ANIMATION_DELAY)) [0..<length (querySelectorAll fadeSelector s)] \<and>
   list_all (\<lambda>el. ''fade-in'' \<in> set (classList (blocks (animateIntro s) ! el)))
     (querySelectorAll fadeSelector s) \<and>
   sorted_wrt (<) (map (\<lambda>index. index * ANIMATION_DELAY)
     [0..<length (querySelectorAll fadeSelector s)]) \<and>
   sorted_wrt (<) (querySelectorAll fadeSelector s) \<and>
   ANIMATION_DELAY = 120 \<and>
   (querySelectorAll fadeSelector s \<noteq> [] \<longrightarrow>
      animationDelay (blocks (animateIntro s) ! hd (querySelectorAll fadeSelector s)) = Some 0)"
proof (intro conjI impI)
  show "map (\<lambda>el. animationDelay (blocks (animateIntro s) ! el)) (querySelectorAll fadeSelector s) =
     map (\<lambda>index. Some (index * ANIMATION_DELAY)) [0..<length (querySelectorAll fadeSelector s)]"
    by (rule nth_equalityI) (simp_all add: animateIntro_nth)
  show "list_all (\<lambda>el. ''fade-in'' \<in> set (classList (blocks (animateIntro s) ! el)))
     (querySelectorAll fadeSelector s)"
    by (auto simp add: list_all_length animateIntro_nth fade_in_added)
  show "sorted_wrt (<) (map (\<lambda>index. index * ANIMATION_DELAY)
     [0..<length (querySelectorAll fadeSelector s)])"
    by (simp add: sorted_wrt_map ANIMATION_DELAY_def sorted_wrt_iff_nth_less)
  show "sorted_wrt (<) (querySelectorAll fadeSelector s)"
    using querySelectorAll_props [of fadeSelector s] by simp
  show "ANIMATION_DELAY = 120" by (rule ANIMATION_DELAY_def)
next
  assume ne: "querySelectorAll fadeSelector s \<noteq> []"
  then have "0 < length (querySelectorAll fadeSelector s)" by simp
  from animateIntro_nth [OF this]
  show "animationDelay (blocks (animateIntro s) ! hd (querySelectorAll fadeSelector s)) = Some 0"
    using ne by (simp add: hd_conv_nth)
qed

theorem animateIntro_spec_witness:
  "querySelectorAll fadeSelector examplePage = [0, 1, 3] \<and>
   map (\<lambda>el. animationDelay (blocks (animateIntro examplePage) ! el)) [0, 1, 3] =
     [Some 0, Some 120, Some 240] \<and>
   animationDelay (blocks (animateIntro examplePage) ! 0) = Some 0 \<and>
   list_all (\<lambda>el. ''fade-in'' \<in> set (classList (blocks (animateIntro examplePage) ! el))) [0, 1, 3]"
proof -
  have q: "querySelectorAll fadeSelector examplePage = [0, 1, 3]" by code_simp
  have ne: "querySelectorAll fadeSelector examplePage \<noteq> []" by (simp add: q)
  have u: "map (\<lambda>index. Some (index * ANIMATION_DELAY)) [0..<length [0, 1, 3 :: nat]] =
      [Some 0, Some 120, Some 240]"
    by code_simp
  have a: "map (\<lambda>el. animationDelay (blocks (animateIntro examplePage) ! el))
        (querySelectorAll fadeSelector examplePage) =
      map (\<lambda>index. Some (index * ANIMATION_DELAY))
        [0..<length (querySelectorAll fadeSelector examplePage)]"
    using animateIntro_spec [of examplePage] by blast
  have b: "animationDelay (blocks (animateIntro examplePage) !
        hd (querySelectorAll fadeSelector examplePage)) = Some 0"
    using animateIntro_spec [of examplePage] ne by blast
  have c: "list_all (\<lambda>el. ''fade-in'' \<in> set (classList (blocks (animateIntro examplePage) ! el)))
      (querySelectorAll fadeSelector examplePage)"
    using animateIntro_spec [of examplePage] by blast
  have a': "map (\<lambda>el. animationDelay (blocks (animateIntro examplePage) ! el)) [0, 1, 3] =
     [Some 0, Some 120, Some 240]"
    using a by (simp only: q u)
  have b': "animationDelay (blocks (animateIntro examplePage) ! 0) = Some 0"
    using b by (simp only: q list.sel)
  have c': "list_all (\<lambda>el. ''fade-in'' \<in> set (classList (blocks (animateIntro examplePage) ! el)))
      [0, 1, 3]"
    using c by (simp only: q)
  show ?thesis using q a' b' c' by blast
qed

text \<open>
  Claim C10, as the code has it. For every theme t in {"light", "dark"}, two toggles in
  succession show t again: the in-memory theme, the \<open>data-theme\<close> attribute and the
  button's caption and aria-label are those of t. The theme key then holds t when writing
  the storage does not throw, whatever it held before, and keeps its previous content
  when it throws. The list of \<open>setItem\<close> calls has grown by the call for the opposite theme
  and the call for t, unless evaluating \<open>localStorage\<close> throws, in which case it has not
  grown; the console has grown by the two switch messages, each preceded by a warning
  when the write failed. So two toggles give back the instance, the attributes, the
  captions and the stored items exactly on a state that showed t already and whose
  storage held t (or fails on writes).
\<close>

theorem toggleTheme_twice_spec:
  "currentTheme (app s) = t \<and> (t = ''light'' \<or> t = ''dark'') \<longrightarrow>
     themeApplied t (toggleTheme (toggleTheme s)) \<and>
     storedTheme (toggleTheme (toggleTheme s)) = (if writeFails s then storedTheme s else Some t) \<and>
     setItemCalls (localStorage (toggleTheme (toggleTheme s))) =
       setItemCalls (localStorage s) @
         (if accessThrows (localStorage s) then []
          else [(STORAGE_KEYS_THEME, opposite t), (STORAGE_KEYS_THEME, t)]) \<and>
     console (toggleTheme (toggleTheme s)) =
       console s @ (if writeFails s then [WarnStorageSetFailed] else []) @
         [LogThemeSwitched (opposite t = ''dark'')] @
         (if writeFails s then [WarnStorageSetFailed] else []) @
         [LogThemeSwitched (t = ''dark'')] \<and>
     (themeApplied t s \<and> (writeFails s \<or> storedTheme s = Some t) \<longrightarrow>
        app (toggleTheme (toggleTheme s)) = app s \<and>
        attributes (toggleTheme (toggleTheme s)) = attributes s \<and>
        textContent (toggleTheme (toggleTheme s)) = textContent s \<and>
        items (localStorage (toggleTheme (toggleTheme s))) = items (localStorage s))"
proof (intro impI conjI)
  assume h: "currentTheme (app s) = t \<and> (t = ''light'' \<or> t = ''dark'')"
  have c1: "currentTheme (app (toggleTheme s)) = opposite t"
    using toggleTheme_applied [of s] h by (simp add: themeApplied_def)
  have it: "items (localStorage (toggleTheme (toggleTheme s))) =
     (if writeFails s then items (localStorage s)
      else (items (localStorage s))(STORAGE_KEYS_THEME \<mapsto> t))"
    using h by (simp add: toggleTheme_twice_items)
  show "themeApplied t (toggleTheme (toggleTheme s))"
    using toggleTheme_applied [of "toggleTheme s"] h by (simp add: c1 opposite_opposite)
  show "storedTheme (toggleTheme (toggleTheme s)) = (if writeFails s then storedTheme s else Some t)"
    by (simp add: storedTheme_def it)
  show "setItemCalls (localStorage (toggleTheme (toggleTheme s))) =
       setItemCalls (localStorage s) @
         (if accessThrows (localStorage s) then []
          else [(STORAGE_KEYS_THEME, opposite t), (STORAGE_KEYS_THEME, t)])"
    using h by (simp add: toggleTheme_twice_items)
  show "console (toggleTheme (toggleTheme s)) =
       console s @ (if writeFails s then [WarnStorageSetFailed] else []) @
         [LogThemeSwitched (opposite t = ''dark'')] @
         (if writeFails s then [WarnStorageSetFailed] else []) @
         [LogThemeSwitched (t = ''dark'')]"
    using h by (simp add: console_toggleTheme_twice)
  assume k: "themeApplied t s \<and> (writeFails s \<or> storedTheme s = Some t)"
  have r: "app (toggleTheme (toggleTheme s)) = app s \<and>
         attributes (toggleTheme (toggleTheme s)) = attributes s \<and>
         textContent (toggleTheme (toggleTheme s)) = textContent s"
    using toggleTheme_twice_restores [of t s] k h by blast
  show "app (toggleTheme (toggleTheme s)) = app s" using r by simp
  show "attributes (toggleTheme (toggleTheme s)) = attributes s" using r by simp
  show "textContent (toggleTheme (toggleTheme s)) = textContent s" using r by simp
  show "items (localStorage (toggleTheme (toggleTheme s))) = items (localStorage s)"
    using k by (auto simp add: it storedTheme_def fun_eq_iff)
qed

theorem toggleTheme_twice_spec_witness:
  "themeApplied ''light''
     (toggleTheme (toggleTheme (run [UserClick ThemeToggle, UserClick ThemeToggle] (loadedPage examplePage)))) \<and>
   app (toggleTheme (toggleTheme (run [UserClick ThemeToggle, UserClick ThemeToggle] (loadedPage examplePage))))
     = app (run [UserClick ThemeToggle, UserClick ThemeToggle] (loadedPage examplePage)) \<and>
   attributes (toggleTheme (toggleTheme (run [UserClick ThemeToggle, UserClick ThemeToggle] (loadedPage examplePage))))
     = attributes (run [UserClick ThemeToggle, UserClick ThemeToggle] (loadedPage examplePage)) \<and>
   items (localStorage
       (toggleTheme (toggleTheme (run [UserClick ThemeToggle, UserClick ThemeToggle] (loadedPage examplePage)))))
     = items (localStorage (run [UserClick ThemeToggle, UserClick ThemeToggle] (loadedPage examplePage))) \<and>
   setItemCalls (localStorage (toggleTheme (toggleTheme (loadedPage examplePage)))) =
     setItemCalls (localStorage (loadedPage examplePage)) @
       [(STORAGE_KEYS_THEME, ''dark''), (STORAGE_KEYS_THEME, ''light'')] \<and>
   console (toggleTheme (toggleTheme (loadedPage examplePage))) =
     console (loadedPage examplePage) @ [LogThemeSwitched True, LogThemeSwitched False] \<and>
   setItemCalls (localStorage (toggleTheme (toggleTheme (loadedPage (storageDisabled examplePage))))) =
     setItemCalls (localStorage (loadedPage (storageDisabled examplePage))) \<and>
   console (toggleTheme (toggleTheme (loadedPage (storageDisabled examplePage)))) =
     console (loadedPage (storageDisabled examplePage)) @
       [WarnStorageSetFailed, LogThemeSwitched True, WarnStorageSetFailed, LogThemeSwitched False]"
proof -
  let ?s = "run [UserClick ThemeToggle, UserClick ThemeToggle] (loadedPage examplePage)"
  let ?L = "loadedPage examplePage"
  let ?d = "loadedPage (storageDisabled examplePage)"
  have h: "currentTheme (app ?s) = ''light'' \<and> (''light'' = ''light'' \<or> ''light'' = ''dark'')"
    by code_simp
  have k: "themeApplied ''light'' ?s \<and> (writeFails ?s \<or> storedTheme ?s = Some ''light'')"
    by code_simp
  have hL: "currentTheme (app ?L) = ''light'' \<and> (''light'' = ''light'' \<or> ''light'' = ''dark'')"
    by code_simp
  have hd: "currentTheme (app ?d) = ''light'' \<and> (''light'' = ''light'' \<or> ''light'' = ''dark'')"
    by code_simp
  have o: "opposite ''light'' = ''dark''" by code_simp
  have od: "(''dark'' = ''dark'') = True" "(''light'' = ''dark'') = False" by simp_all
  have w: "\<not> writeFails ?L" "\<not> accessThrows (localStorage ?L)" by code_simp+
  have wd: "writeFails ?d" "accessThrows (localStorage ?d)" by code_simp+
  have a: "themeApplied ''light'' (toggleTheme (toggleTheme ?s)) \<and>
      app (toggleTheme (toggleTheme ?s)) = app ?s \<and>
      attributes (toggleTheme (toggleTheme ?s)) = attributes ?s \<and>
      items (localStorage (toggleTheme (toggleTheme ?s))) = items (localStorage ?s)"
    using toggleTheme_twice_spec [of ?s "''light''"] h k by blast
  have b: "setItemCalls (localStorage (toggleTheme (toggleTheme ?L))) =
       setItemCalls (localStorage ?L) @
         (if accessThrows (localStorage ?L) then []
          else [(STORAGE_KEYS_THEME, opposite ''light''), (STORAGE_KEYS_THEME, ''light'')]) \<and>
     console (toggleTheme (toggleTheme ?L)) =
       console ?L @ (if writeFails ?L then [WarnStorageSetFailed] else []) @
         [LogThemeSwitched (opposite ''light'' = ''dark'')] @
         (if writeFails ?L then [WarnStorageSetFailed] else []) @
         [LogThemeSwitched (''light'' = ''dark'')]"
    using toggleTheme_twice_spec [of ?L "''light''"] hL by blast
  have c: "setItemCalls (localStorage (toggleTheme (toggleTheme ?d))) =
       setItemCalls (localStorage ?d) @
         (if accessThrows (localStorage ?d) then []
          else [(STORAGE_KEYS_THEME, opposite ''light''), (STORAGE_KEYS_THEME, ''light'')]) \<and>
     console (toggleTheme (toggleTheme ?d)) =
       console ?d @ (if writeFails ?d then [WarnStorageSetFailed] else []) @
         [LogThemeSwitched (opposite ''light'' = ''dark'')] @
         (if writeFails ?d then [WarnStorageSetFailed] else []) @
         [LogThemeSwitched (''light'' = ''dark'')]"
    using toggleTheme_twice_spec [of ?d "''light''"] hd by blast
  show ?thesis
    using a b c w wd
    by (simp only: o od if_False if_True append_Nil append_Nil2 append.simps simp_thms)
qed

text \<open>The claim as the specification states it fails for the stored value. On a freshly
  loaded page nothing is stored, and after two toggles the theme key holds "light": the
  storage is not back in its original state, and system changes are no longer followed.
  And where \<open>setItem\<close> throws, the theme key does not hold the theme after two toggles.\<close>

theorem toggleTheme_twice_counterexample:
  "currentTheme (app (loadedPage examplePage)) = ''light'' \<and>
   storedTheme (loadedPage examplePage) = None \<and>
   storedTheme (toggleTheme (toggleTheme (loadedPage examplePage))) = Some ''light'' \<and>
   currentTheme (app (run [SystemTheme True] (loadedPage examplePage))) = ''dark'' \<and>
   currentTheme (app (run [SystemTheme True] (toggleTheme (toggleTheme (loadedPage examplePage)))))
     = ''light'' \<and>
   currentTheme (app (loadedPage (withStorage [] False True examplePage))) = ''light'' \<and>
   storedTheme (toggleTheme (toggleTheme (loadedPage (withStorage [] False True examplePage)))) = None"
  by code_simp

end
